theory Spec2Isabelle
  imports Complex_Main
begin

section \<open>The portfolio ledger (src/store/simulationStore.ts)\<close>

text \<open>
  The store keeps one \<open>SimulationAccount\<close> and four actions: \<open>buyFund\<close>,
  \<open>sellFund\<close>, \<open>updatePrices\<close> and \<open>resetAccount\<close>. Each action reads the
  account with \<open>get()\<close> and replaces it with \<open>set(...)\<close>; here an action is a
  function from the account before to the account after, paired with what the caller
  observes (the returned object, an alert, a thrown TypeError).

  Conventions of the embedding:
  \<^item> A JavaScript \<open>number\<close> that the code computes by sums, differences and products
    is a \<open>real\<close>, and the actions compute with exact arithmetic: the rounding of IEEE
    doubles, overflow and the sign of zero are outside that model.
  \<^item> The two fields of a position that the code assigns from a quotient whose divisor
    can be zero, \<open>avgCost\<close> and \<open>profitLossPercent\<close>, are of the type \<open>number\<close>,
    which adds NaN and the two infinities to the reals, with the quotient, difference
    and product of IEEE 754 on them.
  \<^item> Where rounding decides what the code does (the partial sell), the object that the
    code builds takes the rounding of each arithmetic result as a parameter: \<open>exact\<close>
    inside the actions, \<open>binary64\<close> (round to nearest, ties to even, 53 bits) for the
    doubles of the code.
  \<^item> A string is a list of bytes, its text in UTF-8. The Chinese literals of the source
    are written byte by byte, with their code points in the comment.
  \<^item> The field \<open>x\<close> of an interface is written with a prefix, since the interfaces
    share field names: \<open>p_x\<close> (Position), \<open>t_x\<close> (Transaction), \<open>a_x\<close>
    (SimulationAccount), \<open>f_x\<close> (an entry of mockFunds).
  \<^item> What an action reads from outside is a parameter: the fund table (the module
    constant \<open>mockFunds\<close> in the source, a parameter here so that a price can differ
    between two calls), the clock (\<open>now k\<close> is the k-th reading of \<open>Date.now()\<close> or
    \<open>new Date()\<close> within the action, in milliseconds), the random source
    (\<open>random k\<close> is the k-th result of \<open>Math.random()\<close>), and the part of
    \<open>Number.prototype.toString\<close> that \<open>toFixed\<close> falls back on.
\<close>

subsection \<open>Data\<close>

datatype FundType = stock | bond | mix | money | index

datatype TxType = buy | sell

datatype SellType = partial | full

text \<open>
  The values of a \<open>number\<close> that a quotient can take, and IEEE 754 division,
  subtraction and multiplication on them (finite results exact; a zero divisor is
  taken as +0).
\<close>

datatype number = Finite real | NaN | PosInfinity | NegInfinity

fun number_divide :: "number \<Rightarrow> number \<Rightarrow> number" where
  "number_divide (Finite a) (Finite b) =
    (if b \<noteq> 0 then Finite (a / b)
     else if a = 0 then NaN else if 0 < a then PosInfinity else NegInfinity)"
| "number_divide NaN y = NaN"
| "number_divide x NaN = NaN"
| "number_divide (Finite a) y = Finite 0"
| "number_divide PosInfinity (Finite b) = (if 0 \<le> b then PosInfinity else NegInfinity)"
| "number_divide NegInfinity (Finite b) = (if 0 \<le> b then NegInfinity else PosInfinity)"
| "number_divide x y = NaN"

fun number_minus :: "number \<Rightarrow> number \<Rightarrow> number" where
  "number_minus (Finite a) (Finite b) = Finite (a - b)"
| "number_minus NaN y = NaN"
| "number_minus x NaN = NaN"
| "number_minus PosInfinity PosInfinity = NaN"
| "number_minus NegInfinity NegInfinity = NaN"
| "number_minus PosInfinity y = PosInfinity"
| "number_minus NegInfinity y = NegInfinity"
| "number_minus x PosInfinity = NegInfinity"
| "number_minus x NegInfinity = PosInfinity"

fun number_times :: "number \<Rightarrow> number \<Rightarrow> number" where
  "number_times (Finite a) (Finite b) = Finite (a * b)"
| "number_times NaN y = NaN"
| "number_times x NaN = NaN"
| "number_times PosInfinity (Finite b) =
    (if b = 0 then NaN else if 0 < b then PosInfinity else NegInfinity)"
| "number_times NegInfinity (Finite b) =
    (if b = 0 then NaN else if 0 < b then NegInfinity else PosInfinity)"
| "number_times (Finite a) PosInfinity =
    (if a = 0 then NaN else if 0 < a then PosInfinity else NegInfinity)"
| "number_times (Finite a) NegInfinity =
    (if a = 0 then NaN else if 0 < a then NegInfinity else PosInfinity)"
| "number_times PosInfinity PosInfinity = PosInfinity"
| "number_times NegInfinity NegInfinity = PosInfinity"
| "number_times x y = NegInfinity"

record Position =
  p_id :: string
  p_fundCode :: string
  p_fundName :: string
  p_fundType :: FundType
  p_shares :: real
  p_totalCost :: real
  p_avgCost :: number
  p_currentPrice :: real
  p_profitLoss :: real
  p_profitLossPercent :: number
  p_marketValue :: real

record Transaction =
  t_id :: string
  t_fundCode :: string
  t_fundName :: string
  t_fundType :: FundType
  t_type :: TxType
  t_sellType :: "SellType option"
  t_shares :: real
  t_price :: real
  t_totalAmount :: real
  t_createdAt :: nat

record SimulationAccount =
  a_totalAssets :: real
  a_cashBalance :: real
  a_profitLoss :: real
  a_profitLossPercent :: real
  a_positions :: "Position list"
  a_transactions :: "Transaction list"

record MockFund =
  f_code :: string
  f_name :: string
  f_type :: FundType
  f_price :: real

definition name_F001 :: string where
  \<comment> \<open>the name of F001: U+6210 U+957F U+4F18 U+9009 U+6DF7 U+5408 in UTF-8\<close>
  "name_F001 =
    [CHR 0xE6, CHR 0x88, CHR 0x90, CHR 0xE9, CHR 0x95, CHR 0xBF, CHR 0xE4, CHR 0xBC, CHR 0x98,
     CHR 0xE9, CHR 0x80, CHR 0x89, CHR 0xE6, CHR 0xB7, CHR 0xB7, CHR 0xE5, CHR 0x90, CHR 0x88]"

definition name_F002 :: string where
  \<comment> \<open>the name of F002: U+7A33 U+5065 U+503A U+5238 U+0041 in UTF-8\<close>
  "name_F002 =
    [CHR 0xE7, CHR 0xA8, CHR 0xB3, CHR 0xE5, CHR 0x81, CHR 0xA5, CHR 0xE5, CHR 0x80, CHR 0xBA,
     CHR 0xE5, CHR 0x88, CHR 0xB8, CHR 0x41]"

definition name_F003 :: string where
  \<comment> \<open>the name of F003: U+79D1 U+6280 U+5148 U+950B U+80A1 U+7968 in UTF-8\<close>
  "name_F003 =
    [CHR 0xE7, CHR 0xA7, CHR 0x91, CHR 0xE6, CHR 0x8A, CHR 0x80, CHR 0xE5, CHR 0x85, CHR 0x88,
     CHR 0xE9, CHR 0x94, CHR 0x8B, CHR 0xE8, CHR 0x82, CHR 0xA1, CHR 0xE7, CHR 0xA5, CHR 0xA8]"

definition name_F004 :: string where
  \<comment> \<open>the name of F004: U+6CAA U+6DF1 U+0033 U+0030 U+0030 U+6307 U+6570 in UTF-8\<close>
  "name_F004 =
    [CHR 0xE6, CHR 0xB2, CHR 0xAA, CHR 0xE6, CHR 0xB7, CHR 0xB1, CHR 0x33, CHR 0x30, CHR 0x30,
     CHR 0xE6, CHR 0x8C, CHR 0x87, CHR 0xE6, CHR 0x95, CHR 0xB0]"

definition name_F005 :: string where
  \<comment> \<open>the name of F005: U+8D27 U+5E01 U+589E U+5F3A in UTF-8\<close>
  "name_F005 =
    [CHR 0xE8, CHR 0xB4, CHR 0xA7, CHR 0xE5, CHR 0xB8, CHR 0x81, CHR 0xE5, CHR 0xA2, CHR 0x9E,
     CHR 0xE5, CHR 0xBC, CHR 0xBA]"

definition name_F006 :: string where
  \<comment> \<open>the name of F006: U+6D88 U+8D39 U+4E3B U+9898 U+6DF7 U+5408 in UTF-8\<close>
  "name_F006 =
    [CHR 0xE6, CHR 0xB6, CHR 0x88, CHR 0xE8, CHR 0xB4, CHR 0xB9, CHR 0xE4, CHR 0xB8, CHR 0xBB,
     CHR 0xE9, CHR 0xA2, CHR 0x98, CHR 0xE6, CHR 0xB7, CHR 0xB7, CHR 0xE5, CHR 0x90, CHR 0x88]"

definition name_F007 :: string where
  \<comment> \<open>the name of F007: U+4EF7 U+503C U+7CBE U+9009 U+80A1 U+7968 in UTF-8\<close>
  "name_F007 =
    [CHR 0xE4, CHR 0xBB, CHR 0xB7, CHR 0xE5, CHR 0x80, CHR 0xBC, CHR 0xE7, CHR 0xB2, CHR 0xBE,
     CHR 0xE9, CHR 0x80, CHR 0x89, CHR 0xE8, CHR 0x82, CHR 0xA1, CHR 0xE7, CHR 0xA5, CHR 0xA8]"

definition name_F008 :: string where
  \<comment> \<open>the name of F008: U+65B0 U+80FD U+6E90 U+6307 U+6570 in UTF-8\<close>
  "name_F008 =
    [CHR 0xE6, CHR 0x96, CHR 0xB0, CHR 0xE8, CHR 0x83, CHR 0xBD, CHR 0xE6, CHR 0xBA, CHR 0x90,
     CHR 0xE6, CHR 0x8C, CHR 0x87, CHR 0xE6, CHR 0x95, CHR 0xB0]"

definition mockFunds :: "MockFund list" where
  "mockFunds =
    [\<lparr>f_code = ''F001'', f_name = name_F001, f_type = mix, f_price = 2.456\<rparr>,
     \<lparr>f_code = ''F002'', f_name = name_F002, f_type = bond, f_price = 1.234\<rparr>,
     \<lparr>f_code = ''F003'', f_name = name_F003, f_type = stock, f_price = 3.789\<rparr>,
     \<lparr>f_code = ''F004'', f_name = name_F004, f_type = index, f_price = 1.876\<rparr>,
     \<lparr>f_code = ''F005'', f_name = name_F005, f_type = money, f_price = 1.023\<rparr>,
     \<lparr>f_code = ''F006'', f_name = name_F006, f_type = mix, f_price = 2.123\<rparr>,
     \<lparr>f_code = ''F007'', f_name = name_F007, f_type = stock, f_price = 1.987\<rparr>,
     \<lparr>f_code = ''F008'', f_name = name_F008, f_type = index, f_price = 1.543\<rparr>]"

definition msg_cash_short :: string where
  \<comment> \<open>the text of the alert of buyFund: U+73B0 U+91D1 U+4F59 U+989D U+4E0D U+8DB3 U+FF01\<close>
  "msg_cash_short =
    [CHR 0xE7, CHR 0x8E, CHR 0xB0, CHR 0xE9, CHR 0x87, CHR 0x91, CHR 0xE4, CHR 0xBD, CHR 0x99,
     CHR 0xE9, CHR 0xA2, CHR 0x9D, CHR 0xE4, CHR 0xB8, CHR 0x8D, CHR 0xE8, CHR 0xB6, CHR 0xB3,
     CHR 0xEF, CHR 0xBC, CHR 0x81]"

definition msg_no_position :: string where
  \<comment> \<open>sellFund: no position for the code: U+672A U+627E U+5230 U+8BE5 U+6301 U+4ED3\<close>
  "msg_no_position =
    [CHR 0xE6, CHR 0x9C, CHR 0xAA, CHR 0xE6, CHR 0x89, CHR 0xBE, CHR 0xE5, CHR 0x88, CHR 0xB0,
     CHR 0xE8, CHR 0xAF, CHR 0xA5, CHR 0xE6, CHR 0x8C, CHR 0x81, CHR 0xE4, CHR 0xBB, CHR 0x93]"

definition msg_shares_not_positive :: string where
  \<comment> \<open>sellFund: shares <= 0: U+5356 U+51FA U+4EFD U+989D U+5FC5 U+987B U+5927 U+4E8E '0'\<close>
  "msg_shares_not_positive =
    [CHR 0xE5, CHR 0x8D, CHR 0x96, CHR 0xE5, CHR 0x87, CHR 0xBA, CHR 0xE4, CHR 0xBB, CHR 0xBD,
     CHR 0xE9, CHR 0xA2, CHR 0x9D, CHR 0xE5, CHR 0xBF, CHR 0x85, CHR 0xE9, CHR 0xA1, CHR 0xBB,
     CHR 0xE5, CHR 0xA4, CHR 0xA7, CHR 0xE4, CHR 0xBA, CHR 0x8E, CHR 0x30]"

definition msg_exceeds_prefix :: string where
  \<comment> \<open>sellFund: the template literal before the interpolated toFixed(2): U+5356 U+51FA U+4EFD U+989D U+8D85 U+8FC7 U+6301 U+4ED3 U+4EFD U+989D U+FF01 U+4F60 U+6700 U+591A U+53EF U+5356 U+51FA ' '\<close>
  "msg_exceeds_prefix =
    [CHR 0xE5, CHR 0x8D, CHR 0x96, CHR 0xE5, CHR 0x87, CHR 0xBA, CHR 0xE4, CHR 0xBB, CHR 0xBD,
     CHR 0xE9, CHR 0xA2, CHR 0x9D, CHR 0xE8, CHR 0xB6, CHR 0x85, CHR 0xE8, CHR 0xBF, CHR 0x87,
     CHR 0xE6, CHR 0x8C, CHR 0x81, CHR 0xE4, CHR 0xBB, CHR 0x93, CHR 0xE4, CHR 0xBB, CHR 0xBD,
     CHR 0xE9, CHR 0xA2, CHR 0x9D, CHR 0xEF, CHR 0xBC, CHR 0x81, CHR 0xE4, CHR 0xBD, CHR 0xA0,
     CHR 0xE6, CHR 0x9C, CHR 0x80, CHR 0xE5, CHR 0xA4, CHR 0x9A, CHR 0xE5, CHR 0x8F, CHR 0xAF,
     CHR 0xE5, CHR 0x8D, CHR 0x96, CHR 0xE5, CHR 0x87, CHR 0xBA, CHR 0x20]"

definition msg_exceeds_suffix :: string where
  \<comment> \<open>sellFund: the template literal after the interpolated toFixed(2): ' ' U+4EFD\<close>
  "msg_exceeds_suffix =
    [CHR 0x20, CHR 0xE4, CHR 0xBB, CHR 0xBD]"

definition msg_full_sell :: string where
  \<comment> \<open>sellFund: success message of a full sell: U+6E05 U+4ED3 U+6210 U+529F U+FF01\<close>
  "msg_full_sell =
    [CHR 0xE6, CHR 0xB8, CHR 0x85, CHR 0xE4, CHR 0xBB, CHR 0x93, CHR 0xE6, CHR 0x88, CHR 0x90,
     CHR 0xE5, CHR 0x8A, CHR 0x9F, CHR 0xEF, CHR 0xBC, CHR 0x81]"

definition msg_partial_sell :: string where
  \<comment> \<open>sellFund: success message of a partial sell: U+5356 U+51FA U+6210 U+529F U+FF01\<close>
  "msg_partial_sell =
    [CHR 0xE5, CHR 0x8D, CHR 0x96, CHR 0xE5, CHR 0x87, CHR 0xBA, CHR 0xE6, CHR 0x88, CHR 0x90,
     CHR 0xE5, CHR 0x8A, CHR 0x9F, CHR 0xEF, CHR 0xBC, CHR 0x81]"
definition initialState :: SimulationAccount where
  "initialState =
    \<lparr>a_totalAssets = 100000, a_cashBalance = 100000, a_profitLoss = 0,
     a_profitLossPercent = 0, a_positions = [], a_transactions = []\<rparr>"

subsection \<open>Rendering numbers\<close>

definition digit :: "nat \<Rightarrow> char" where
  "digit d = ''0123456789'' ! (d mod 10)"

fun digits :: "nat \<Rightarrow> string" where
  "digits n = (if n < 10 then [digit n] else digits (n div 10) @ [digit (n mod 10)])"

declare digits.simps [simp del]

text \<open>
  \<open>x.toFixed(f)\<close> for a finite \<open>x\<close>, after ECMA-262 (Number.prototype.toFixed): the
  sign is split off; a magnitude of at least \<open>10^21\<close> is rendered by
  \<open>Number.prototype.toString\<close> (the parameter \<open>toString\<close>, not modelled: it prints
  an exponent); otherwise \<open>n\<close> is the integer nearest to \<open>x * 10^f\<close>, the larger of
  the two at a tie, and its digits are padded with zeros to \<open>f + 1\<close> places and
  split by a point before the last \<open>f\<close>.
\<close>

definition toFixed :: "(real \<Rightarrow> string) \<Rightarrow> nat \<Rightarrow> real \<Rightarrow> string" where
  "toFixed toString f x0 =
    (let s = (if x0 < 0 then ''-'' else '''');
         x = (if x0 < 0 then - x0 else x0)
     in if x \<ge> 10 ^ 21 then s @ toString x
        else
          let n = nat \<lfloor>x * 10 ^ f + 1 / 2\<rfloor>;
              m = (if n = 0 then ''0'' else digits n);
              m = (if f \<noteq> 0
                   then
                     let k = length m;
                         m = (if k \<le> f then replicate (f + 1 - k) (CHR ''0'') @ m else m);
                         k = (if k \<le> f then f + 1 else k)
                     in take (k - f) m @ ''.'' @ drop (k - f) m
                   else m)
          in s @ m)"

subsection \<open>Rounding\<close>

text \<open>
  The rounding of an arithmetic result. \<open>exact\<close> rounds nothing. \<open>binary64\<close> is
  the rounding of the code's doubles, round to nearest with ties to even: \<open>binade x\<close>
  is the power of two with \<open>binade x \<le> x < 2 * binade x\<close> for \<open>x > 0\<close>; the unit in
  the last place of \<open>x\<close> is \<open>binade \<bar>x\<bar> / 2^52\<close>, and \<open>2^-1074\<close> for the
  subnormal \<open>\<bar>x\<bar> < 2^-1022\<close>; \<open>x\<close> is rounded to the nearest multiple of its
  unit, to the even one of two that are equally near. Results of magnitude \<open>2^1024\<close>
  and more, which are infinite in the code, are not modelled.
\<close>

definition exact :: "real \<Rightarrow> real" where
  "exact x = x"

function binadeUp :: "real \<Rightarrow> real" where
  "binadeUp x = (if 2 \<le> x then 2 * binadeUp (x / 2) else 1)"
  by pat_completeness auto
termination
proof (relation "measure (\<lambda>x. nat \<lceil>x\<rceil>)")
  show "wf (measure (\<lambda>x::real. nat \<lceil>x\<rceil>))"
    by simp
next
  fix x :: real
  assume large: "2 \<le> x"
  then have "x / 2 \<le> x - 1"
    by simp
  then have "\<lceil>x / 2\<rceil> \<le> \<lceil>x - 1\<rceil>"
    by (rule ceiling_mono)
  then have "\<lceil>x / 2\<rceil> < \<lceil>x\<rceil>"
    by simp
  moreover from large have "0 < \<lceil>x\<rceil>"
    by simp
  ultimately show "(x / 2, x) \<in> measure (\<lambda>x. nat \<lceil>x\<rceil>)"
    by simp
qed

function binadeDown :: "real \<Rightarrow> real" where
  "binadeDown x = (if 0 < x \<and> x < 1 then binadeDown (2 * x) / 2 else 1)"
  by pat_completeness auto
termination
proof (relation "measure (\<lambda>x. nat \<lceil>2 / x\<rceil>)")
  show "wf (measure (\<lambda>x::real. nat \<lceil>2 / x\<rceil>))"
    by simp
next
  fix x :: real
  assume small: "0 < x \<and> x < 1"
  then have "2 / (2 * x) \<le> 2 / x - 1"
    by (simp add: field_simps)
  then have "\<lceil>2 / (2 * x)\<rceil> \<le> \<lceil>2 / x - 1\<rceil>"
    by (rule ceiling_mono)
  then have "\<lceil>2 / (2 * x)\<rceil> < \<lceil>2 / x\<rceil>"
    by simp
  moreover from small have "0 < \<lceil>2 / x\<rceil>"
    by simp
  ultimately show "(2 * x, x) \<in> measure (\<lambda>x. nat \<lceil>2 / x\<rceil>)"
    by simp
qed

declare binadeUp.simps [simp del] binadeDown.simps [simp del]

definition binade :: "real \<Rightarrow> real" where
  "binade x = (if 1 \<le> x then binadeUp x else binadeDown x)"

definition roundHalfEven :: "real \<Rightarrow> int" where
  "roundHalfEven x =
    (let n = \<lfloor>x\<rfloor>;
         rest = x - of_int n
     in if rest < 1 / 2 then n
        else if 1 / 2 < rest then n + 1
        else if even n then n else n + 1)"

definition binary64 :: "real \<Rightarrow> real" where
  "binary64 x =
    (if x = 0 then 0
     else
       let ulp = max (binade \<bar>x\<bar>) (1 / 2 ^ 1022) / 2 ^ 52
       in of_int (roundHalfEven (x / ulp)) * ulp)"

fun rounded :: "(real \<Rightarrow> real) \<Rightarrow> number \<Rightarrow> number" where
  "rounded fl (Finite x) = Finite (fl x)"
| "rounded fl x = x"

subsection \<open>The actions\<close>

text \<open>What the caller of \<open>buyFund\<close> observes: the function returns nothing.\<close>

datatype BuyOutcome =
  NoFund  \<comment> \<open>line 77: \<open>if (!fund) return\<close>\<close>
  | Alert string  \<comment> \<open>lines 82-85: \<open>alert(...); return\<close>\<close>
  | Bought  \<comment> \<open>line 159: the account was set\<close>

text \<open>
  What the caller of \<open>sellFund\<close> observes: the returned object, or the TypeError of
  \<open>fund.price\<close> at line 193 when \<open>mockFunds.find(...)!\<close> is undefined.
\<close>

datatype js_error = TypeError

record SellResult =
  success :: bool
  message :: "string option"

text \<open>
  \<open>newPositions.reduce((sum, p) => sum + p.marketValue, 0) + newCashBalance\<close>, the
  expression of lines 154-157, 239-242 and 281-283.
\<close>

definition totalAssetsOf :: "Position list \<Rightarrow> real \<Rightarrow> real" where
  "totalAssetsOf newPositions newCashBalance =
    foldl (\<lambda>sum p. sum + p_marketValue p) 0 newPositions + newCashBalance"

text \<open>The \<open>set({account: {...account, ...}})\<close> of lines 159-169 and 244-254.\<close>

definition setAccount ::
  "SimulationAccount \<Rightarrow> real \<Rightarrow> Position list \<Rightarrow> Transaction \<Rightarrow> SimulationAccount" where
  "setAccount account newCashBalance newPositions newTransaction =
    (let newTotalAssets = totalAssetsOf newPositions newCashBalance
     in account\<lparr>a_cashBalance := newCashBalance,
          a_totalAssets := newTotalAssets,
          a_profitLoss := newTotalAssets - 100000,
          a_profitLossPercent := ((newTotalAssets - 100000) / 100000) * 100,
          a_positions := newPositions,
          a_transactions := newTransaction # a_transactions account\<rparr>)"

text \<open>
  The object that replaces a position of the bought fund (lines 98-115): the new total
  cost, shares and average cost are those of the position that \<open>find\<close> returned,
  \<open>existingPosition\<close>, whichever position \<open>p\<close> of that code is replaced.
\<close>

definition positionAfterBuy :: "MockFund \<Rightarrow> real \<Rightarrow> Position \<Rightarrow> Position \<Rightarrow> Position" where
  "positionAfterBuy fund shares existingPosition p =
    (let newTotalCost = p_totalCost existingPosition + (f_price fund * shares);
         totalShares = p_shares existingPosition + shares;
         newAvgCost = number_divide (Finite newTotalCost) (Finite totalShares)
     in p\<lparr>p_shares := totalShares,
          p_totalCost := newTotalCost,
          p_avgCost := newAvgCost,
          p_currentPrice := f_price fund,
          p_marketValue := totalShares * f_price fund,
          p_profitLoss := totalShares * f_price fund - newTotalCost,
          p_profitLossPercent :=
            number_times
              (number_divide (number_minus (Finite (f_price fund)) newAvgCost) newAvgCost)
              (Finite 100)\<rparr>)"

text \<open>The position of a first buy (lines 119-135); \<open>ident\<close> is its id, \<open>Date.now().toString()\<close>.\<close>

definition newPosition :: "MockFund \<Rightarrow> real \<Rightarrow> string \<Rightarrow> Position" where
  "newPosition fund shares ident =
    (let newTotalCost = f_price fund * shares;
         newAvgCost = Finite (f_price fund)
     in \<lparr>p_id = ident, p_fundCode = f_code fund, p_fundName = f_name fund,
         p_fundType = f_type fund, p_shares = shares, p_totalCost = newTotalCost,
         p_avgCost = newAvgCost, p_currentPrice = f_price fund, p_profitLoss = 0,
         p_profitLossPercent = Finite 0, p_marketValue = shares * f_price fund\<rparr>)"

definition buyFund ::
  "MockFund list \<Rightarrow> (nat \<Rightarrow> nat) \<Rightarrow> string \<Rightarrow> real \<Rightarrow> SimulationAccount
    \<Rightarrow> SimulationAccount \<times> BuyOutcome" where
  "buyFund funds now fundCode shares account =
    (case find (\<lambda>f. f_code f = fundCode) funds of
      None \<Rightarrow> (account, NoFund)
    | Some fund \<Rightarrow>
        let totalAmount = shares * f_price fund in
        if totalAmount > a_cashBalance account then (account, Alert msg_cash_short)
        else
          let existingPosition = find (\<lambda>p. p_fundCode p = fundCode) (a_positions account);
              newPositions =
                (case existingPosition of
                  Some existingPosition \<Rightarrow>
                    map (\<lambda>p. if p_fundCode p = fundCode
                          then positionAfterBuy fund shares existingPosition p else p)
                      (a_positions account)
                | None \<Rightarrow> a_positions account @ [newPosition fund shares (digits (now 0))]);
              read = (case existingPosition of Some existingPosition \<Rightarrow> 0 | None \<Rightarrow> 1);
              newTransaction =
                \<lparr>t_id = digits (now read), t_fundCode = f_code fund,
                 t_fundName = f_name fund, t_fundType = f_type fund, t_type = buy,
                 t_sellType = None, t_shares = shares, t_price = f_price fund,
                 t_totalAmount = totalAmount, t_createdAt = now (read + 1)\<rparr>;
              newCashBalance = a_cashBalance account - totalAmount
          in (setAccount account newCashBalance newPositions newTransaction, Bought))"

text \<open>
  The object that replaces a position of the sold fund at a partial sell (lines 195 and
  203-218), computed from \<open>position\<close>, the one that \<open>find\<close> returned. \<open>fl\<close> rounds
  the result of each operation. The divisor of \<open>sellRatio\<close> is not zero where
  \<open>sellFund\<close> builds the object: the guards have let \<open>0 < shares \<le> position.shares\<close>
  pass.
\<close>

definition positionAfterSell ::
  "(real \<Rightarrow> real) \<Rightarrow> MockFund \<Rightarrow> real \<Rightarrow> Position \<Rightarrow> Position \<Rightarrow> Position" where
  "positionAfterSell fl fund shares position p =
    (let sellRatio = fl (shares / p_shares position);
         newTotalCost = fl (p_totalCost position * fl (1 - sellRatio));
         newShares = fl (p_shares position - shares);
         newAvgCost = rounded fl (number_divide (Finite newTotalCost) (Finite newShares))
     in p\<lparr>p_shares := newShares,
          p_totalCost := newTotalCost,
          p_avgCost := newAvgCost,
          p_currentPrice := f_price fund,
          p_marketValue := fl (newShares * f_price fund),
          p_profitLoss := fl (fl (newShares * f_price fund) - newTotalCost),
          p_profitLossPercent :=
            rounded fl (number_times
              (rounded fl (number_divide
                (rounded fl (number_minus (Finite (f_price fund)) newAvgCost)) newAvgCost))
              (Finite 100))\<rparr>)"

definition sellFund ::
  "MockFund list \<Rightarrow> (nat \<Rightarrow> nat) \<Rightarrow> (real \<Rightarrow> string) \<Rightarrow> string \<Rightarrow> real
    \<Rightarrow> SimulationAccount \<Rightarrow> SimulationAccount \<times> (js_error + SellResult)" where
  "sellFund funds now toString fundCode shares account =
    (case find (\<lambda>p. p_fundCode p = fundCode) (a_positions account) of
      None \<Rightarrow> (account, Inr \<lparr>success = False, message = Some msg_no_position\<rparr>)
    | Some position \<Rightarrow>
        if shares \<le> 0
        then (account, Inr \<lparr>success = False, message = Some msg_shares_not_positive\<rparr>)
        else if shares > p_shares position
        then (account,
          Inr \<lparr>success = False,
               message = Some (msg_exceeds_prefix @ toFixed toString 2 (p_shares position)
                 @ msg_exceeds_suffix)\<rparr>)
        else
          (case find (\<lambda>f. f_code f = fundCode) funds of
            None \<Rightarrow> (account, Inl TypeError)
          | Some fund \<Rightarrow>
              let totalAmount = shares * f_price fund;
                  isFullSell = (shares = p_shares position);
                  newPositions =
                    (if isFullSell
                     then filter (\<lambda>p. p_fundCode p \<noteq> fundCode) (a_positions account)
                     else map (\<lambda>p. if p_fundCode p = fundCode
                                then positionAfterSell exact fund shares position p else p)
                            (a_positions account));
                  newTransaction =
                    \<lparr>t_id = digits (now 0), t_fundCode = f_code fund,
                     t_fundName = f_name fund, t_fundType = f_type fund, t_type = sell,
                     t_sellType = Some (if isFullSell then full else partial),
                     t_shares = shares, t_price = f_price fund,
                     t_totalAmount = totalAmount, t_createdAt = now 1\<rparr>;
                  newCashBalance = a_cashBalance account + totalAmount
              in (setAccount account newCashBalance newPositions newTransaction,
                  Inr \<lparr>success = True,
                       message = Some (if isFullSell then msg_full_sell
                                       else msg_partial_sell)\<rparr>)))"

text \<open>
  The callback of the \<open>map\<close> of lines 266-279, applied from the position at index
  \<open>k\<close> on: \<open>map\<close> calls it in index order, so the position at index \<open>k\<close> gets the
  \<open>k\<close>-th result of \<open>Math.random()\<close>.
\<close>

fun reprice :: "(nat \<Rightarrow> real) \<Rightarrow> nat \<Rightarrow> Position list \<Rightarrow> Position list" where
  "reprice random k [] = []"
| "reprice random k (position # rest) =
    (let changePercent = (random k - 0.5) * 0.06;
         newPrice = p_currentPrice position * (1 + changePercent);
         marketValue = p_shares position * newPrice
     in position\<lparr>p_currentPrice := newPrice,
          p_marketValue := marketValue,
          p_profitLoss := marketValue - p_totalCost position,
          p_profitLossPercent :=
            number_times
              (number_divide (number_minus (Finite newPrice) (p_avgCost position))
                (p_avgCost position))
              (Finite 100)\<rparr>)
    # reprice random (Suc k) rest"

definition updatePrices :: "(nat \<Rightarrow> real) \<Rightarrow> SimulationAccount \<Rightarrow> SimulationAccount" where
  "updatePrices random account =
    (let newPositions = reprice random 0 (a_positions account);
         newTotalAssets = totalAssetsOf newPositions (a_cashBalance account)
     in account\<lparr>a_totalAssets := newTotalAssets,
          a_profitLoss := newTotalAssets - 100000,
          a_profitLossPercent := ((newTotalAssets - 100000) / 100000) * 100,
          a_positions := newPositions\<rparr>)"

definition resetAccount :: "SimulationAccount \<Rightarrow> SimulationAccount" where
  "resetAccount account = initialState"

subsection \<open>Sequences of actions\<close>

text \<open>
  One call of an action of the store, with what it reads from outside while it runs.
\<close>

datatype Action =
  BuyFund "nat \<Rightarrow> nat" string real
  | SellFund "nat \<Rightarrow> nat" string real
  | UpdatePrices "nat \<Rightarrow> real"
  | ResetAccount

fun perform ::
  "MockFund list \<Rightarrow> (real \<Rightarrow> string) \<Rightarrow> SimulationAccount \<Rightarrow> Action \<Rightarrow> SimulationAccount" where
  "perform funds toString account (BuyFund now fundCode shares) =
    fst (buyFund funds now fundCode shares account)"
| "perform funds toString account (SellFund now fundCode shares) =
    fst (sellFund funds now toString fundCode shares account)"
| "perform funds toString account (UpdatePrices random) = updatePrices random account"
| "perform funds toString account ResetAccount = resetAccount account"

definition run ::
  "MockFund list \<Rightarrow> (real \<Rightarrow> string) \<Rightarrow> Action list \<Rightarrow> SimulationAccount \<Rightarrow> SimulationAccount" where
  "run funds toString actions account = foldl (perform funds toString) account actions"

fun buysPositive :: "Action list \<Rightarrow> bool" where
  "buysPositive [] = True"
| "buysPositive (BuyFund now fundCode shares # actions) = (0 < shares \<and> buysPositive actions)"
| "buysPositive (action # actions) = buysPositive actions"

subsection \<open>Predicates of the statements\<close>

text \<open>\<open>totalAssets = cashBalance + \<Sigma> marketValue\<close> of the data model.\<close>

definition totalAssetsConsistent :: "SimulationAccount \<Rightarrow> bool" where
  "totalAssetsConsistent account =
    (a_totalAssets account
      = a_cashBalance account + sum_list (map p_marketValue (a_positions account)))"

definition sharesPositive :: "SimulationAccount \<Rightarrow> bool" where
  "sharesPositive account = list_all (\<lambda>p. 0 < p_shares p) (a_positions account)"

definition noZeroPosition :: "SimulationAccount \<Rightarrow> bool" where
  "noZeroPosition account = list_all (\<lambda>p. p_shares p \<noteq> 0) (a_positions account)"

text \<open>
  A string of the shape of a number with two decimals: an optional minus sign, one or
  more digits, a point, two digits.
\<close>

definition isDigit :: "char \<Rightarrow> bool" where
  "isDigit c = (c \<in> set ''0123456789'')"

definition twoDecimals :: "string \<Rightarrow> bool" where
  "twoDecimals s =
    (let body = (case s of c # cs \<Rightarrow> if c = CHR ''-'' then cs else s | [] \<Rightarrow> s);
         k = length body
     in 4 \<le> k \<and> list_all isDigit (take (k - 3) body) \<and> body ! (k - 3) = CHR ''.''
        \<and> list_all isDigit (drop (k - 2) body))"

text \<open>The number a string of digits denotes, and the hundredths a two-decimal string denotes.\<close>

definition digitValue :: "char \<Rightarrow> nat" where
  "digitValue c = of_char c - 48"

definition digitsValue :: "string \<Rightarrow> nat" where
  "digitsValue ds = foldl (\<lambda>n c. 10 * n + digitValue c) 0 ds"

definition hundredths :: "string \<Rightarrow> int" where
  "hundredths s =
    (case s of
      c # cs \<Rightarrow>
        if c = CHR ''-'' then - int (digitsValue (filter isDigit cs))
        else int (digitsValue (filter isDigit s))
    | [] \<Rightarrow> 0)"

section \<open>The fund catalog (src/store/fundStore.ts and the API client it imports)\<close>

text \<open>
  Fields are prefixed as before: \<open>fd_x\<close> (Fund), \<open>fi_x\<close> (FundInfo), \<open>fs_x\<close>
  (the store). \<open>Fund.type\<close> is a string here: \<open>loadPopularFunds\<close> stores whatever the
  provider sent (\<open>f.type as Fund["type"]\<close> checks nothing at run time).
\<close>

record Fund =
  fd_code :: string
  fd_name :: string
  fd_type :: string
  fd_company :: "string option"
  fd_price :: real
  fd_dayGrowth :: real

record FundInfo =
  fi_code :: string
  fi_name :: string
  fi_type :: string
  fi_company :: string
  fi_value :: real
  fi_day_growth :: real
  fi_week_growth :: "real option"
  fi_month_growth :: "real option"
  fi_year_growth :: "real option"

record FundStore =
  fs_popularFunds :: "Fund list"
  fs_customFunds :: "Fund list"
  fs_allFunds :: "Fund list"
  fs_isLoading :: bool

text \<open>
  The reply of \<open>fetch\<close>: the promise rejects (no network), or resolves to a response
  with its \<open>ok\<close> flag and the outcome of \<open>response.json()\<close>, which rejects on a body
  that is not JSON and resolves to the value of the body otherwise: an array of fund
  records, or any other value (an object, a string, null), which the type
  \<open>Promise<FundInfo[]>\<close> does not keep out at run time.
\<close>

datatype Rejection = NetworkFailure | JsonSyntaxError | ErrorThrown | TypeErrorThrown

datatype Json = JsonArray "FundInfo list" | JsonOther

record Response =
  ok :: bool
  json :: "Rejection + Json"

definition popular_name_000001 :: string where
  \<comment> \<open>the name of 000001: U+534E U+590F U+6210 U+957F U+6DF7 U+5408 in UTF-8\<close>
  "popular_name_000001 =
    [CHR 0xE5, CHR 0x8D, CHR 0x8E, CHR 0xE5, CHR 0xA4, CHR 0x8F, CHR 0xE6, CHR 0x88, CHR 0x90,
     CHR 0xE9, CHR 0x95, CHR 0xBF, CHR 0xE6, CHR 0xB7, CHR 0xB7, CHR 0xE5, CHR 0x90, CHR 0x88]"

definition popular_name_110022 :: string where
  \<comment> \<open>the name of 110022: U+6613 U+65B9 U+8FBE U+6D88 U+8D39 U+884C U+4E1A U+80A1 U+7968 in UTF-8\<close>
  "popular_name_110022 =
    [CHR 0xE6, CHR 0x98, CHR 0x93, CHR 0xE6, CHR 0x96, CHR 0xB9, CHR 0xE8, CHR 0xBE, CHR 0xBE,
     CHR 0xE6, CHR 0xB6, CHR 0x88, CHR 0xE8, CHR 0xB4, CHR 0xB9, CHR 0xE8, CHR 0xA1, CHR 0x8C,
     CHR 0xE4, CHR 0xB8, CHR 0x9A, CHR 0xE8, CHR 0x82, CHR 0xA1, CHR 0xE7, CHR 0xA5, CHR 0xA8]"

definition popular_name_161725 :: string where
  \<comment> \<open>the name of 161725: U+62DB U+5546 U+4E2D U+8BC1 U+767D U+9152 U+6307 U+6570 in UTF-8\<close>
  "popular_name_161725 =
    [CHR 0xE6, CHR 0x8B, CHR 0x9B, CHR 0xE5, CHR 0x95, CHR 0x86, CHR 0xE4, CHR 0xB8, CHR 0xAD,
     CHR 0xE8, CHR 0xAF, CHR 0x81, CHR 0xE7, CHR 0x99, CHR 0xBD, CHR 0xE9, CHR 0x85, CHR 0x92,
     CHR 0xE6, CHR 0x8C, CHR 0x87, CHR 0xE6, CHR 0x95, CHR 0xB0]"

definition popular_name_270002 :: string where
  \<comment> \<open>the name of 270002: U+5E7F U+53D1 U+7A33 U+5065 U+589E U+957F U+6DF7 U+5408 in UTF-8\<close>
  "popular_name_270002 =
    [CHR 0xE5, CHR 0xB9, CHR 0xBF, CHR 0xE5, CHR 0x8F, CHR 0x91, CHR 0xE7, CHR 0xA8, CHR 0xB3,
     CHR 0xE5, CHR 0x81, CHR 0xA5, CHR 0xE5, CHR 0xA2, CHR 0x9E, CHR 0xE9, CHR 0x95, CHR 0xBF,
     CHR 0xE6, CHR 0xB7, CHR 0xB7, CHR 0xE5, CHR 0x90, CHR 0x88]"

definition popular_name_519732 :: string where
  \<comment> \<open>the name of 519732: U+4EA4 U+94F6 U+5B9A U+671F U+652F U+4ED8 U+53CC U+606F U+5E73 U+8861 U+6DF7 U+5408 in UTF-8\<close>
  "popular_name_519732 =
    [CHR 0xE4, CHR 0xBA, CHR 0xA4, CHR 0xE9, CHR 0x93, CHR 0xB6, CHR 0xE5, CHR 0xAE, CHR 0x9A,
     CHR 0xE6, CHR 0x9C, CHR 0x9F, CHR 0xE6, CHR 0x94, CHR 0xAF, CHR 0xE4, CHR 0xBB, CHR 0x98,
     CHR 0xE5, CHR 0x8F, CHR 0x8C, CHR 0xE6, CHR 0x81, CHR 0xAF, CHR 0xE5, CHR 0xB9, CHR 0xB3,
     CHR 0xE8, CHR 0xA1, CHR 0xA1, CHR 0xE6, CHR 0xB7, CHR 0xB7, CHR 0xE5, CHR 0x90, CHR 0x88]"

definition popular_name_001618 :: string where
  \<comment> \<open>the name of 001618: U+5929 U+5F18 U+4E2D U+8BC1 U+7535 U+5B50 'E' 'T' 'F' U+8054 U+63A5 'A' in UTF-8\<close>
  "popular_name_001618 =
    [CHR 0xE5, CHR 0xA4, CHR 0xA9, CHR 0xE5, CHR 0xBC, CHR 0x98, CHR 0xE4, CHR 0xB8, CHR 0xAD,
     CHR 0xE8, CHR 0xAF, CHR 0x81, CHR 0xE7, CHR 0x94, CHR 0xB5, CHR 0xE5, CHR 0xAD, CHR 0x90,
     CHR 0x45, CHR 0x54, CHR 0x46, CHR 0xE8, CHR 0x81, CHR 0x94, CHR 0xE6, CHR 0x8E, CHR 0xA5,
     CHR 0x41]"

definition popular_name_005827 :: string where
  \<comment> \<open>the name of 005827: U+6613 U+65B9 U+8FBE U+84DD U+7B79 U+7CBE U+9009 U+6DF7 U+5408 in UTF-8\<close>
  "popular_name_005827 =
    [CHR 0xE6, CHR 0x98, CHR 0x93, CHR 0xE6, CHR 0x96, CHR 0xB9, CHR 0xE8, CHR 0xBE, CHR 0xBE,
     CHR 0xE8, CHR 0x93, CHR 0x9D, CHR 0xE7, CHR 0xAD, CHR 0xB9, CHR 0xE7, CHR 0xB2, CHR 0xBE,
     CHR 0xE9, CHR 0x80, CHR 0x89, CHR 0xE6, CHR 0xB7, CHR 0xB7, CHR 0xE5, CHR 0x90, CHR 0x88]"

definition popular_name_161025 :: string where
  \<comment> \<open>the name of 161025: U+62DB U+5546 U+56FD U+8BC1 U+751F U+7269 U+533B U+836F U+6307 U+6570 in UTF-8\<close>
  "popular_name_161025 =
    [CHR 0xE6, CHR 0x8B, CHR 0x9B, CHR 0xE5, CHR 0x95, CHR 0x86, CHR 0xE5, CHR 0x9B, CHR 0xBD,
     CHR 0xE8, CHR 0xAF, CHR 0x81, CHR 0xE7, CHR 0x94, CHR 0x9F, CHR 0xE7, CHR 0x89, CHR 0xA9,
     CHR 0xE5, CHR 0x8C, CHR 0xBB, CHR 0xE8, CHR 0x8D, CHR 0xAF, CHR 0xE6, CHR 0x8C, CHR 0x87,
     CHR 0xE6, CHR 0x95, CHR 0xB0]"

definition mockFunds_catalog :: "Fund list" where
  "mockFunds_catalog =
    [\<lparr>fd_code = ''000001'', fd_name = popular_name_000001, fd_type = ''mix'', fd_company = None,
      fd_price = 1.234, fd_dayGrowth = 0.5\<rparr>,
     \<lparr>fd_code = ''110022'', fd_name = popular_name_110022, fd_type = ''stock'', fd_company = None,
      fd_price = 2.456, fd_dayGrowth = 1.2\<rparr>,
     \<lparr>fd_code = ''161725'', fd_name = popular_name_161725, fd_type = ''index'', fd_company = None,
      fd_price = 1.567, fd_dayGrowth = -0.3\<rparr>,
     \<lparr>fd_code = ''270002'', fd_name = popular_name_270002, fd_type = ''mix'', fd_company = None,
      fd_price = 1.876, fd_dayGrowth = 0.8\<rparr>,
     \<lparr>fd_code = ''519732'', fd_name = popular_name_519732, fd_type = ''mix'', fd_company = None,
      fd_price = 1.543, fd_dayGrowth = 0.2\<rparr>,
     \<lparr>fd_code = ''001618'', fd_name = popular_name_001618, fd_type = ''index'', fd_company = None,
      fd_price = 1.234, fd_dayGrowth = 0.6\<rparr>,
     \<lparr>fd_code = ''005827'', fd_name = popular_name_005827, fd_type = ''mix'', fd_company = None,
      fd_price = 1.987, fd_dayGrowth = 1.5\<rparr>,
     \<lparr>fd_code = ''161025'', fd_name = popular_name_161025, fd_type = ''index'', fd_company = None,
      fd_price = 1.321, fd_dayGrowth = -0.5\<rparr>]"
definition initialFundStore :: FundStore where
  "initialFundStore =
    \<lparr>fs_popularFunds = mockFunds_catalog, fs_customFunds = [],
     fs_allFunds = mockFunds_catalog, fs_isLoading = False\<rparr>"

text \<open>
  \<open>getFundList\<close> (lines 52-61 of the API client): every failure inside the \<open>try\<close>
  is caught, logged and answered with the empty list, so the promise never rejects.
\<close>

definition getFundList :: "Rejection + Response \<Rightarrow> Rejection + Json" where
  "getFundList fetched =
    (case (case fetched of
             Inl rejection \<Rightarrow> Inl rejection
           | Inr response \<Rightarrow> if \<not> ok response then Inl ErrorThrown else json response) of
      Inl error \<Rightarrow> Inr (JsonArray [])
    | Inr funds \<Rightarrow> Inr funds)"

text \<open>
  \<open>funds.map(...)\<close> of line 54: on a value that is no array, \<open>map\<close> is no function
  and the call throws a TypeError.
\<close>

definition convertFunds :: "Json \<Rightarrow> Rejection + Fund list" where
  "convertFunds funds =
    (case funds of
      JsonArray funds \<Rightarrow>
        Inr (map (\<lambda>f. \<lparr>fd_code = fi_code f, fd_name = fi_name f, fd_type = fi_type f,
                        fd_company = Some (fi_company f), fd_price = fi_value f,
                        fd_dayGrowth = fi_day_growth f\<rparr>) funds)
    | JsonOther \<Rightarrow> Inl TypeErrorThrown)"

text \<open>
  \<open>Map.prototype.set\<close> on the insertion-ordered entries of a \<open>Map\<close>: a key already
  present keeps its place and takes the new value, a new key goes last.
\<close>

fun mapSet :: "string \<Rightarrow> Fund \<Rightarrow> (string \<times> Fund) list \<Rightarrow> (string \<times> Fund) list" where
  "mapSet key val [] = [(key, val)]"
| "mapSet key val ((k, v) # entries) =
    (if k = key then (key, val) # entries else (k, v) # mapSet key val entries)"

definition getAllFunds :: "FundStore \<Rightarrow> FundStore \<times> Fund list" where
  "getAllFunds store =
    (let allFundsMap = foldl (\<lambda>m fund. mapSet (fd_code fund) fund m) [] (fs_popularFunds store);
         allFundsMap = foldl (\<lambda>m fund. mapSet (fd_code fund) fund m) allFundsMap
                         (fs_customFunds store);
         allFunds = map snd allFundsMap
     in (store\<lparr>fs_allFunds := allFunds\<rparr>, allFunds))"

definition loadPopularFunds :: "Rejection + Response \<Rightarrow> FundStore \<Rightarrow> FundStore" where
  "loadPopularFunds fetched store =
    (let store = store\<lparr>fs_isLoading := True\<rparr>;
         store =
           (case (case getFundList fetched of
                    Inr funds \<Rightarrow> convertFunds funds
                  | Inl rejection \<Rightarrow> Inl rejection) of
             Inr convertedFunds \<Rightarrow>
               fst (getAllFunds (store\<lparr>fs_popularFunds := convertedFunds\<rparr>))
           | Inl error \<Rightarrow> store)
     in store\<lparr>fs_isLoading := False\<rparr>)"

section \<open>Inputs of the examples\<close>

definition clock :: "nat \<Rightarrow> nat" where
  \<comment> \<open>readings one millisecond apart, from 2023-11-14T22:13:20Z\<close>
  "clock k = 1700000000000 + k"

definition noExponent :: "real \<Rightarrow> string" where
  \<comment> \<open>stands for \<open>Number.prototype.toString\<close> where no example reaches it\<close>
  "noExponent x = []"

definition F001 :: MockFund where
  "F001 = \<lparr>f_code = ''F001'', f_name = name_F001, f_type = mix, f_price = 2.456\<rparr>"

definition F001_dearer :: MockFund where
  \<comment> \<open>the same fund in a table with another price\<close>
  "F001_dearer = \<lparr>f_code = ''F001'', f_name = name_F001, f_type = mix, f_price = 3\<rparr>"

definition held100 :: SimulationAccount where
  \<comment> \<open>the initial account after buying 100 shares of F001\<close>
  "held100 = fst (buyFund mockFunds clock ''F001'' 100 initialState)"

definition heldZero :: SimulationAccount where
  \<comment> \<open>the initial account after \<open>buyFund("F001", 0)\<close>\<close>
  "heldZero = fst (buyFund mockFunds clock ''F001'' 0 initialState)"

definition heldShort :: SimulationAccount where
  \<comment> \<open>the initial account after \<open>buyFund("F001", -5)\<close>\<close>
  "heldShort = fst (buyFund mockFunds clock ''F001'' (- 5) initialState)"

definition heldAtTwoPrices :: SimulationAccount where
  \<comment> \<open>then 50 more shares of F001 at the price 3\<close>
  "heldAtTwoPrices = fst (buyFund [F001_dearer] clock ''F001'' 50 held100)"

definition heldFive :: SimulationAccount where
  \<comment> \<open>the initial account after \<open>buyFund("F001", 5)\<close>\<close>
  "heldFive = fst (buyFund mockFunds clock ''F001'' 5 initialState)"

definition heldFiveMinusFive :: SimulationAccount where
  \<comment> \<open>then \<open>buyFund("F001", -5)\<close>\<close>
  "heldFiveMinusFive = fst (buyFund mockFunds clock ''F001'' (- 5) heldFive)"

definition F001_binary64 :: MockFund where
  \<comment> \<open>F001 with its price as the code holds it, the double of the literal 2.456\<close>
  "F001_binary64 =
    \<lparr>f_code = ''F001'', f_name = name_F001, f_type = mix, f_price = binary64 2.456\<rparr>"

definition bought_binary64 :: Position where
  \<comment> \<open>the position that \<open>buyFund("F001", 10.000000000000002)\<close> creates on the initial
    account (lines 119-135), each product rounded as in the code\<close>
  "bought_binary64 =
    \<lparr>p_id = ''1700000000000'', p_fundCode = ''F001'', p_fundName = name_F001,
     p_fundType = mix, p_shares = binary64 10.000000000000002,
     p_totalCost = binary64 (f_price F001_binary64 * binary64 10.000000000000002),
     p_avgCost = Finite (f_price F001_binary64), p_currentPrice = f_price F001_binary64,
     p_profitLoss = 0, p_profitLossPercent = Finite 0,
     p_marketValue = binary64 (binary64 10.000000000000002 * f_price F001_binary64)\<rparr>"

section \<open>Lemmas on lists\<close>

lemma foldl_plus_sum_list:
  "foldl (\<lambda>sum p. sum + g p) (z::real) ps = z + sum_list (map g ps)"
  by (induction ps arbitrary: z) simp_all

lemma totalAssetsOf_sum:
  "totalAssetsOf ps cash = cash + sum_list (map p_marketValue ps)"
  by (simp add: totalAssetsOf_def foldl_plus_sum_list)

lemma find_snoc_None:
  "find P xs = None \<Longrightarrow> find P (xs @ [x]) = (if P x then Some x else None)"
  by (induction xs) (simp_all split: if_splits)

lemma find_map_matching:
  assumes "find (\<lambda>p. key p = c) ps = Some q" and "\<And>p. key (g p) = key p"
  shows "find (\<lambda>p. key p = c) (map (\<lambda>p. if key p = c then g p else p) ps) = Some (g q)"
  using assms(1)
proof (induction ps)
  case Nil
  then show ?case by simp
next
  case (Cons p ps)
  show ?case
  proof (cases "key p = c")
    case True
    with Cons.prems have "q = p" by simp
    with True assms(2) show ?thesis by simp
  next
    case False
    with Cons show ?thesis by simp
  qed
qed

lemma find_filter_others: "find (\<lambda>p. key p = c) (filter (\<lambda>p. key p \<noteq> c) ps) = None"
  by (induction ps) simp_all

lemma find_Some_holds: "find P xs = Some x \<Longrightarrow> P x \<and> x \<in> set xs"
  by (induction xs) (auto split: if_splits)

section \<open>Lemmas on rounding\<close>

lemma binadeUp_bounds: "1 \<le> x \<Longrightarrow> binadeUp x \<le> x \<and> x < 2 * binadeUp x"
proof (induction x rule: binadeUp.induct)
  case (1 x)
  show ?case
  proof (cases "2 \<le> x")
    case True
    with 1 have "binadeUp (x / 2) \<le> x / 2 \<and> x / 2 < 2 * binadeUp (x / 2)"
      by simp
    with True show ?thesis
      by (subst (1 2) binadeUp.simps) simp
  next
    case False
    with 1 show ?thesis
      by (subst (1 2) binadeUp.simps) simp
  qed
qed

lemma binadeDown_bounds:
  "0 < x \<Longrightarrow> x < 1 \<Longrightarrow> binadeDown x \<le> x \<and> x < 2 * binadeDown x"
proof (induction x rule: binadeDown.induct)
  case (1 x)
  show ?case
  proof (cases "2 * x < 1")
    case True
    with 1 have "binadeDown (2 * x) \<le> 2 * x \<and> 2 * x < 2 * binadeDown (2 * x)"
      by simp
    with 1 show ?thesis
      by (subst (1 2) binadeDown.simps) simp
  next
    case False
    then have "binadeDown (2 * x) = 1"
      by (subst binadeDown.simps) simp
    with 1 False show ?thesis
      by (subst (1 2) binadeDown.simps) simp
  qed
qed

lemma binade_bounds: "0 < x \<Longrightarrow> binade x \<le> x \<and> x < 2 * binade x"
  by (simp add: binade_def binadeUp_bounds binadeDown_bounds)

lemma roundHalfEven_nearest: "\<bar>of_int (roundHalfEven x) - x\<bar> \<le> 1 / 2"
proof -
  have "of_int \<lfloor>x\<rfloor> \<le> x" and "x < of_int \<lfloor>x\<rfloor> + 1"
    by linarith+
  then show ?thesis
    by (auto simp add: roundHalfEven_def Let_def)
qed

text \<open>\<open>binary64\<close> moves a number by half a unit in the last place at most.\<close>

lemma binary64_error:
  "\<bar>binary64 x - x\<bar> \<le> max (binade \<bar>x\<bar>) (1 / 2 ^ 1022) / 2 ^ 53"
proof (cases "x = 0")
  case True
  then show ?thesis
    by (simp add: binary64_def)
next
  case False
  define ulp where "ulp = max (binade \<bar>x\<bar>) (1 / 2 ^ 1022) / 2 ^ 52"
  have positive: "0 < ulp"
    unfolding ulp_def by (simp add: max_def)
  have "\<bar>of_int (roundHalfEven (x / ulp)) - x / ulp\<bar> \<le> 1 / 2"
    by (rule roundHalfEven_nearest)
  with positive have "\<bar>of_int (roundHalfEven (x / ulp)) - x / ulp\<bar> * ulp \<le> 1 / 2 * ulp"
    by (simp only: mult_le_cancel_right_pos)
  moreover have "\<bar>of_int (roundHalfEven (x / ulp)) - x / ulp\<bar> * ulp
      = \<bar>of_int (roundHalfEven (x / ulp)) * ulp - x\<bar>"
  proof -
    from positive have "(of_int (roundHalfEven (x / ulp)) - x / ulp) * ulp
        = of_int (roundHalfEven (x / ulp)) * ulp - x"
      by (simp add: field_simps)
    then have "\<bar>of_int (roundHalfEven (x / ulp)) * ulp - x\<bar>
        = \<bar>of_int (roundHalfEven (x / ulp)) - x / ulp\<bar> * \<bar>ulp\<bar>"
      by (simp only: abs_mult [symmetric])
    with positive show ?thesis
      by simp
  qed
  moreover from False have "binary64 x = of_int (roundHalfEven (x / ulp)) * ulp"
    by (simp add: binary64_def ulp_def Let_def)
  ultimately have "\<bar>binary64 x - x\<bar> \<le> 1 / 2 * ulp"
    by simp
  then show ?thesis
    unfolding ulp_def by simp
qed

section \<open>Properties of the ledger\<close>

subsection \<open>What an action leaves of the account\<close>

lemma setAccount_fields:
  "a_cashBalance (setAccount account cash ps tx) = cash"
  "a_positions (setAccount account cash ps tx) = ps"
  "a_transactions (setAccount account cash ps tx) = tx # a_transactions account"
  "a_totalAssets (setAccount account cash ps tx) = totalAssetsOf ps cash"
  by (simp_all add: setAccount_def Let_def)

subsection \<open>Failing buys and sells\<close>

text \<open>
  C3. For every account and every buy of a fund of the table: when
  \<open>shares * fund.price\<close> exceeds the cash balance, the buy alerts that the cash is
  short and the account after equals the account before, in every field (cashBalance,
  totalAssets, profitLoss, profitLossPercent, positions and transactions).
\<close>

theorem buyFund_insufficient_funds_unchanged:
  assumes "find (\<lambda>f. f_code f = fundCode) funds = Some fund"
    and "shares * f_price fund > a_cashBalance account"
  shows "buyFund funds now fundCode shares account = (account, Alert msg_cash_short)"
  using assms by (simp add: buyFund_def)

lemma find_F001: "find (\<lambda>f. f_code f = ''F001'') mockFunds = Some F001"
  by (simp add: mockFunds_def F001_def)

theorem buyFund_insufficient_funds_unchanged_witness:
  "find (\<lambda>f. f_code f = ''F001'') mockFunds = Some F001
   \<and> 50000 * f_price F001 > a_cashBalance initialState
   \<and> buyFund mockFunds clock ''F001'' 50000 initialState = (initialState, Alert msg_cash_short)"
proof -
  have short: "50000 * f_price F001 > a_cashBalance initialState"
    by (simp add: F001_def initialState_def)
  from buyFund_insufficient_funds_unchanged [OF find_F001 short] find_F001 short
  show ?thesis by simp
qed

text \<open>
  C10. For every account and every call of sellFund that meets one of its three guards
  (no position for the code; shares <= 0; shares above the shares of the position), the
  returned object has success = false and the account after equals the account before,
  in every field.
\<close>

theorem sellFund_failure_unchanged:
  assumes "find (\<lambda>p. p_fundCode p = fundCode) (a_positions account) = None
    \<or> (\<exists>position. find (\<lambda>p. p_fundCode p = fundCode) (a_positions account) = Some position
          \<and> (shares \<le> 0 \<or> shares > p_shares position))"
  shows "\<exists>r. sellFund funds now toString fundCode shares account = (account, Inr r)
    \<and> success r = False"
  using assms by (auto simp add: sellFund_def)

lemma F001_fields [simp]: "f_code F001 = ''F001''" "f_price F001 = 2.456"
  by (simp_all add: F001_def)

lemma held100_cash: "a_cashBalance held100 = 99754.4"
  by (simp add: held100_def buyFund_def find_F001 initialState_def setAccount_def Let_def)

lemma held100_positions: "a_positions held100 = [newPosition F001 100 ''1700000000000'']"
  by (simp add: held100_def buyFund_def find_F001 initialState_def setAccount_def
      Let_def clock_def digits.simps digit_def)

theorem sellFund_failure_unchanged_witness:
  "(find (\<lambda>p. p_fundCode p = ''F002'') (a_positions initialState) = None
    \<or> (\<exists>position. find (\<lambda>p. p_fundCode p = ''F002'') (a_positions initialState) = Some position
          \<and> ((1::real) \<le> 0 \<or> 1 > p_shares position)))
   \<and> (\<exists>r. sellFund mockFunds clock noExponent ''F002'' 1 initialState = (initialState, Inr r)
          \<and> success r = False)"
proof -
  have guard: "find (\<lambda>p. p_fundCode p = ''F002'') (a_positions initialState) = None
    \<or> (\<exists>position. find (\<lambda>p. p_fundCode p = ''F002'') (a_positions initialState) = Some position
          \<and> ((1::real) \<le> 0 \<or> 1 > p_shares position))"
    by (simp add: initialState_def)
  from sellFund_failure_unchanged [where funds = mockFunds and now = clock
      and toString = noExponent, OF guard] guard
  show ?thesis by blast
qed

subsection \<open>The average cost after two buys\<close>

lemma buyFund_first:
  assumes "find (\<lambda>f. f_code f = fundCode) funds = Some fund"
    and "find (\<lambda>p. p_fundCode p = fundCode) (a_positions account) = None"
    and "buyFund funds now fundCode shares account = (account', Bought)"
  shows "a_positions account' = a_positions account @ [newPosition fund shares (digits (now 0))]"
  using assms by (auto simp add: buyFund_def Let_def setAccount_fields split: if_splits)

lemma buyFund_again:
  assumes "find (\<lambda>f. f_code f = fundCode) funds = Some fund"
    and "find (\<lambda>p. p_fundCode p = fundCode) (a_positions account) = Some existingPosition"
    and "buyFund funds now fundCode shares account = (account', Bought)"
  shows "a_positions account' =
    map (\<lambda>p. if p_fundCode p = fundCode then positionAfterBuy fund shares existingPosition p
              else p) (a_positions account)"
  using assms by (auto simp add: buyFund_def Let_def setAccount_fields split: if_splits)

lemma positionAfterBuy_fundCode [simp]:
  "p_fundCode (positionAfterBuy fund shares existingPosition p) = p_fundCode p"
  by (simp add: positionAfterBuy_def Let_def)

lemma positionAfterSell_fundCode [simp]:
  "p_fundCode (positionAfterSell fl fund shares position p) = p_fundCode p"
  by (simp add: positionAfterSell_def Let_def)

text \<open>
  C1 (amended). For every account with no position in a fund: after a buy of
  \<open>s1 > 0\<close> shares at the price \<open>p1\<close> of the fund in the table of the first call and
  a buy of \<open>s2 > 0\<close> shares at the price \<open>p2\<close> of the fund in the table of the
  second call, both setting the account, the position of the fund has
  \<open>avgCost = (p1 * s1 + p2 * s2) / (s1 + s2)\<close>, a finite number, with \<open>s1 + s2\<close>
  shares and the total cost \<open>p1 * s1 + p2 * s2\<close>.
\<close>

theorem buyFund_twice_avgCost:
  assumes none: "find (\<lambda>p. p_fundCode p = fundCode) (a_positions account) = None"
    and fund1: "find (\<lambda>f. f_code f = fundCode) funds1 = Some fund1"
    and fund2: "find (\<lambda>f. f_code f = fundCode) funds2 = Some fund2"
    and pos1: "0 < s1"
    and pos2: "0 < s2"
    and buy1: "buyFund funds1 now1 fundCode s1 account = (account1, Bought)"
    and buy2: "buyFund funds2 now2 fundCode s2 account1 = (account2, Bought)"
  shows "\<exists>position. find (\<lambda>p. p_fundCode p = fundCode) (a_positions account2) = Some position
    \<and> p_avgCost position = Finite ((f_price fund1 * s1 + f_price fund2 * s2) / (s1 + s2))
    \<and> p_shares position = s1 + s2
    \<and> p_totalCost position = f_price fund1 * s1 + f_price fund2 * s2"
proof -
  let ?first = "newPosition fund1 s1 (digits (now1 0))"
  from fund1 have code1: "f_code fund1 = fundCode"
    using find_Some_holds [of "\<lambda>f. f_code f = fundCode" funds1 fund1] by simp
  have "a_positions account1 = a_positions account @ [?first]"
    using buyFund_first [OF fund1 none buy1] .
  with none code1 have held: "find (\<lambda>p. p_fundCode p = fundCode) (a_positions account1) = Some ?first"
    by (simp add: find_snoc_None newPosition_def Let_def)
  have "a_positions account2 =
    map (\<lambda>p. if p_fundCode p = fundCode then positionAfterBuy fund2 s2 ?first p else p)
      (a_positions account1)"
    using buyFund_again [OF fund2 held buy2] .
  with held have found: "find (\<lambda>p. p_fundCode p = fundCode) (a_positions account2)
      = Some (positionAfterBuy fund2 s2 ?first ?first)"
    using find_map_matching [of p_fundCode fundCode "a_positions account1" ?first
        "positionAfterBuy fund2 s2 ?first"]
    by simp
  from pos1 pos2 have "s1 + s2 \<noteq> 0"
    by simp
  with found show ?thesis
    by (simp add: positionAfterBuy_def newPosition_def Let_def)
qed

theorem buyFund_twice_avgCost_witness:
  "find (\<lambda>p. p_fundCode p = ''F001'') (a_positions initialState) = None
   \<and> find (\<lambda>f. f_code f = ''F001'') mockFunds = Some F001
   \<and> find (\<lambda>f. f_code f = ''F001'') [F001_dearer] = Some F001_dearer
   \<and> (0::real) < 100 \<and> (0::real) < 50
   \<and> buyFund mockFunds clock ''F001'' 100 initialState = (held100, Bought)
   \<and> buyFund [F001_dearer] clock ''F001'' 50 held100 = (heldAtTwoPrices, Bought)
   \<and> (\<exists>position.
        find (\<lambda>p. p_fundCode p = ''F001'') (a_positions heldAtTwoPrices) = Some position
        \<and> p_avgCost position
            = Finite ((f_price F001 * 100 + f_price F001_dearer * 50) / (100 + 50))
        \<and> p_shares position = 100 + 50
        \<and> p_totalCost position = f_price F001 * 100 + f_price F001_dearer * 50)"
proof -
  have none: "find (\<lambda>p. p_fundCode p = ''F001'') (a_positions initialState) = None"
    by (simp add: initialState_def)
  have fund2: "find (\<lambda>f. f_code f = ''F001'') [F001_dearer] = Some F001_dearer"
    by (simp add: F001_dearer_def)
  have pos1: "(0::real) < 100" and pos2: "(0::real) < 50"
    by simp_all
  have buy1: "buyFund mockFunds clock ''F001'' 100 initialState = (held100, Bought)"
    by (simp add: held100_def buyFund_def find_F001 initialState_def Let_def)
  have buy2: "buyFund [F001_dearer] clock ''F001'' 50 held100 = (heldAtTwoPrices, Bought)"
    unfolding heldAtTwoPrices_def
    by (simp add: buyFund_def fund2 held100_cash F001_dearer_def Let_def)
  from buyFund_twice_avgCost [OF none find_F001 fund2 pos1 pos2 buy1 buy2]
    none find_F001 fund2 buy1 buy2
  show ?thesis by simp
qed

lemma heldFive_positions: "a_positions heldFive = [newPosition F001 5 ''1700000000000'']"
  by (simp add: heldFive_def buyFund_def find_F001 initialState_def setAccount_def
      Let_def clock_def digits.simps digit_def)

lemma heldFive_cash: "a_cashBalance heldFive = 99987.72"
  by (simp add: heldFive_def buyFund_def find_F001 initialState_def setAccount_def Let_def)

text \<open>
  C1 as stated fails where the shares of the two buys sum to zero, which buyFund does
  not refuse: after \<open>buyFund("F001", 5)\<close> and \<open>buyFund("F001", -5)\<close> on the initial
  account, both setting the account, the position has 0 shares and its avgCost is the
  quotient 0 / 0, NaN, which equals no number.
\<close>

theorem buyFund_twice_zero_sum_counterexample:
  "find (\<lambda>p. p_fundCode p = ''F001'') (a_positions initialState) = None
   \<and> buyFund mockFunds clock ''F001'' 5 initialState = (heldFive, Bought)
   \<and> buyFund mockFunds clock ''F001'' (- 5) heldFive = (heldFiveMinusFive, Bought)
   \<and> map p_shares (a_positions heldFiveMinusFive) = [0]
   \<and> map p_totalCost (a_positions heldFiveMinusFive) = [0]
   \<and> map p_avgCost (a_positions heldFiveMinusFive) = [NaN]"
proof -
  have buy1: "buyFund mockFunds clock ''F001'' 5 initialState = (heldFive, Bought)"
    by (simp add: heldFive_def buyFund_def find_F001 initialState_def Let_def)
  have buy2: "buyFund mockFunds clock ''F001'' (- 5) heldFive = (heldFiveMinusFive, Bought)"
    unfolding heldFiveMinusFive_def
    by (simp add: buyFund_def find_F001 heldFive_cash Let_def)
  have "a_positions heldFiveMinusFive
      = [positionAfterBuy F001 (- 5) (newPosition F001 5 ''1700000000000'')
          (newPosition F001 5 ''1700000000000'')]"
    unfolding heldFiveMinusFive_def
    by (simp add: buyFund_def find_F001 heldFive_cash heldFive_positions setAccount_fields
        Let_def newPosition_def)
  then have "map p_shares (a_positions heldFiveMinusFive) = [0]"
    and "map p_totalCost (a_positions heldFiveMinusFive) = [0]"
    and "map p_avgCost (a_positions heldFiveMinusFive) = [NaN]"
    by (simp_all add: positionAfterBuy_def newPosition_def Let_def)
  with buy1 buy2 show ?thesis
    by (simp add: initialState_def)
qed

subsection \<open>The average cost after a partial sell\<close>

lemma partial_sell_quotient:
  fixes cost :: real
  assumes "0 < shares" and "shares < held"
  shows "cost * (1 - shares / held) / (held - shares) = cost / held"
proof -
  from assms have "held \<noteq> 0" and "held - shares \<noteq> 0" by simp_all
  then show ?thesis by (simp add: field_simps)
qed

lemma positionAfterSell_fields:
  "p_shares (positionAfterSell fl fund shares position p) = fl (p_shares position - shares)"
  "p_totalCost (positionAfterSell fl fund shares position p)
    = fl (p_totalCost position * fl (1 - fl (shares / p_shares position)))"
  "p_avgCost (positionAfterSell fl fund shares position p)
    = rounded fl (number_divide
        (Finite (fl (p_totalCost position * fl (1 - fl (shares / p_shares position)))))
        (Finite (fl (p_shares position - shares))))"
  by (simp_all add: positionAfterSell_def Let_def)

text \<open>
  With exact arithmetic the object of a partial sell keeps the quotient
  totalCost / shares, which is what the code aims at.
\<close>

lemma positionAfterSell_exact_avgCost:
  assumes "0 < shares" and "shares < p_shares position"
  shows "p_avgCost (positionAfterSell exact fund shares position p)
    = Finite (p_totalCost position / p_shares position)"
proof -
  from assms have "p_shares position - shares \<noteq> 0"
    by simp
  with assms show ?thesis
    by (simp add: positionAfterSell_fields exact_def partial_sell_quotient)
qed

lemma binary64_price: "binary64 2.456 = 5530420342410969 / 2 ^ 51"
  by (simp add: binary64_def binade_def binadeUp.simps roundHalfEven_def Let_def)

lemma binary64_shares: "binary64 10.000000000000002 = 5629499534213121 / 2 ^ 49"
  by (simp add: binary64_def binade_def binadeUp.simps roundHalfEven_def Let_def)

lemma binary64_totalCost:
  "binary64 (5530420342410969 / 2 ^ 51 * (5629499534213121 / 2 ^ 49)) = 432064089250857 / 2 ^ 44"
  by (simp add: binary64_def binade_def binadeUp.simps roundHalfEven_def Let_def)

lemma binary64_sellRatio:
  "binary64 (10 / (5629499534213121 / 2 ^ 49)) = 4503599627370495 / 2 ^ 52"
  by (simp add: binary64_def binade_def binadeDown.simps roundHalfEven_def Let_def)

lemma binary64_complement: "binary64 (1 - 4503599627370495 / 2 ^ 52) = 1 / 2 ^ 52"
  by (simp add: binary64_def binade_def binadeDown.simps roundHalfEven_def Let_def)

lemma binary64_newTotalCost:
  "binary64 (432064089250857 / 2 ^ 44 * (1 / 2 ^ 52)) = 432064089250857 / 2 ^ 96"
  by (simp add: binary64_def binade_def binadeDown.simps roundHalfEven_def Let_def)

lemma binary64_newShares: "binary64 (5629499534213121 / 2 ^ 49 - 10) = 1 / 2 ^ 49"
  by (simp add: binary64_def binade_def binadeDown.simps roundHalfEven_def Let_def)

lemma binary64_newAvgCost:
  "binary64 (432064089250857 / 2 ^ 96 / (1 / 2 ^ 49)) = 432064089250857 / 2 ^ 47"
  by (simp add: binary64_def binade_def binadeUp.simps roundHalfEven_def Let_def)

text \<open>
  C2. The claim is that a partial sell keeps avgCost, and the code aims at it (lemma
  \<open>positionAfterSell_exact_avgCost\<close>). In the doubles of the code it does not: where
  nearly all shares are sold, \<open>1 - sellRatio\<close> cancels to a single unit in the last
  place and the new total cost keeps no digit of the ratio. The position is the one
  that \<open>buyFund("F001", 10.000000000000002)\<close> creates (price 2.456, the double
  \<open>5530420342410969 / 2^51\<close>); selling 10 of its shares is a partial sell, and the
  object that replaces the position has \<open>2^-49\<close> shares and the avgCost
  \<open>432064089250857 / 2^47\<close>, the double 3.0700000000000003, a quarter above 2.456.
\<close>

theorem positionAfterSell_binary64_avgCost_moves:
  "p_shares bought_binary64 = 5629499534213121 / 2 ^ 49
   \<and> p_totalCost bought_binary64 = 432064089250857 / 2 ^ 44
   \<and> p_avgCost bought_binary64 = Finite (5530420342410969 / 2 ^ 51)
   \<and> (0::real) < 10 \<and> 10 < p_shares bought_binary64
   \<and> p_shares (positionAfterSell binary64 F001_binary64 10 bought_binary64 bought_binary64)
      = 1 / 2 ^ 49
   \<and> p_totalCost (positionAfterSell binary64 F001_binary64 10 bought_binary64 bought_binary64)
      = 432064089250857 / 2 ^ 96
   \<and> p_avgCost (positionAfterSell binary64 F001_binary64 10 bought_binary64 bought_binary64)
      = Finite (432064089250857 / 2 ^ 47)
   \<and> (5530420342410969 / 2 ^ 51 :: real) < 2.4561
   \<and> (3.07 :: real) < 432064089250857 / 2 ^ 47"
proof -
  have held: "p_shares bought_binary64 = 5629499534213121 / 2 ^ 49"
    and cost: "p_totalCost bought_binary64 = 432064089250857 / 2 ^ 44"
    and avg: "p_avgCost bought_binary64 = Finite (5530420342410969 / 2 ^ 51)"
    by (simp_all only: bought_binary64_def F001_binary64_def Position.simps MockFund.simps
        binary64_price binary64_shares binary64_totalCost)
  have sellRatio: "binary64 (10 / p_shares bought_binary64) = 4503599627370495 / 2 ^ 52"
    by (simp only: held binary64_sellRatio)
  have newTotalCost: "binary64 (p_totalCost bought_binary64
      * binary64 (1 - binary64 (10 / p_shares bought_binary64))) = 432064089250857 / 2 ^ 96"
    by (simp only: sellRatio cost binary64_complement binary64_newTotalCost)
  have newShares: "binary64 (p_shares bought_binary64 - 10) = 1 / 2 ^ 49"
    by (simp only: held binary64_newShares)
  have nonzero: "((1::real) / 2 ^ 49 \<noteq> 0) = True"
    by simp
  have sold: "p_shares (positionAfterSell binary64 F001_binary64 10 bought_binary64 bought_binary64)
      = 1 / 2 ^ 49"
    and "p_totalCost (positionAfterSell binary64 F001_binary64 10 bought_binary64 bought_binary64)
      = 432064089250857 / 2 ^ 96"
    and "p_avgCost (positionAfterSell binary64 F001_binary64 10 bought_binary64 bought_binary64)
      = Finite (432064089250857 / 2 ^ 47)"
    by (simp_all only: positionAfterSell_fields newTotalCost newShares
        number_divide.simps nonzero if_True rounded.simps binary64_newAvgCost)
  moreover have "(0::real) < 10" and "(10::real) < 5629499534213121 / 2 ^ 49"
    and "(5530420342410969 / 2 ^ 51 :: real) < 2.4561"
    and "(3.07 :: real) < 432064089250857 / 2 ^ 47"
    by simp_all
  ultimately show ?thesis
    using held cost avg by (simp only: simp_thms)
qed

lemma held100_find:
  "find (\<lambda>p. p_fundCode p = ''F001'') (a_positions held100)
    = Some (newPosition F001 100 ''1700000000000'')"
  by (simp add: held100_positions newPosition_def)

lemma newPosition_fields [simp]:
  "p_shares (newPosition fund shares ident) = shares"
  "p_totalCost (newPosition fund shares ident) = f_price fund * shares"
  "p_avgCost (newPosition fund shares ident) = Finite (f_price fund)"
  "p_fundCode (newPosition fund shares ident) = f_code fund"
  by (simp_all add: newPosition_def)

subsection \<open>Full sells\<close>

text \<open>
  A sell that passes the three guards reads the price of the fund. For a position whose
  code is not in the table, which no buy creates, \<open>fund\<close> is undefined and
  \<open>fund.price\<close> throws before the account is set.
\<close>

lemma sellFund_unknown_fund_throws:
  assumes "find (\<lambda>p. p_fundCode p = fundCode) (a_positions account) = Some position"
    and "0 < shares" and "shares \<le> p_shares position"
    and "find (\<lambda>f. f_code f = fundCode) funds = None"
  shows "sellFund funds now toString fundCode shares account = (account, Inl TypeError)"
  using assms by (simp add: sellFund_def)

text \<open>
  C4 (amended). For every account holding a position in a fund of the table, with
  shares > 0: selling exactly the shares of the position succeeds with the message of a
  full sell, leaves no position of that code in the positions (they are the positions
  of the other codes, unchanged), and puts a sell transaction with sellType = full and
  those shares at the front of the transactions.
\<close>

theorem sellFund_full_removes_position:
  assumes held: "find (\<lambda>p. p_fundCode p = fundCode) (a_positions account) = Some position"
    and fund: "find (\<lambda>f. f_code f = fundCode) funds = Some fund"
    and pos: "0 < p_shares position"
  shows "snd (sellFund funds now toString fundCode (p_shares position) account)
      = Inr \<lparr>success = True, message = Some msg_full_sell\<rparr>
    \<and> a_positions (fst (sellFund funds now toString fundCode (p_shares position) account))
      = filter (\<lambda>p. p_fundCode p \<noteq> fundCode) (a_positions account)
    \<and> find (\<lambda>p. p_fundCode p = fundCode)
        (a_positions (fst (sellFund funds now toString fundCode (p_shares position) account)))
      = None
    \<and> (\<exists>tx. a_transactions (fst (sellFund funds now toString fundCode (p_shares position) account))
          = tx # a_transactions account
        \<and> t_type tx = sell \<and> t_sellType tx = Some full \<and> t_fundCode tx = fundCode
        \<and> t_shares tx = p_shares position)"
proof -
  from fund have "f_code fund = fundCode"
    using find_Some_holds [of "\<lambda>f. f_code f = fundCode" funds fund] by simp
  with held fund pos show ?thesis
    by (simp add: sellFund_def Let_def setAccount_fields find_filter_others)
qed

theorem sellFund_full_removes_position_witness:
  "find (\<lambda>p. p_fundCode p = ''F001'') (a_positions held100)
      = Some (newPosition F001 100 ''1700000000000'')
   \<and> find (\<lambda>f. f_code f = ''F001'') mockFunds = Some F001
   \<and> 0 < p_shares (newPosition F001 100 ''1700000000000'')
   \<and> snd (sellFund mockFunds clock noExponent ''F001'' 100 held100)
      = Inr \<lparr>success = True, message = Some msg_full_sell\<rparr>
   \<and> a_positions (fst (sellFund mockFunds clock noExponent ''F001'' 100 held100)) = []"
proof -
  have pos: "0 < p_shares (newPosition F001 100 ''1700000000000'')"
    by simp
  from sellFund_full_removes_position [OF held100_find find_F001 pos, of clock noExponent]
    held100_find find_F001
  show ?thesis by (simp add: held100_positions)
qed

lemma heldZero_positions: "a_positions heldZero = [newPosition F001 0 ''1700000000000'']"
  by (simp add: heldZero_def buyFund_def find_F001 initialState_def setAccount_def
      Let_def clock_def digits.simps digit_def)

text \<open>
  C4 as stated fails on an account the store reaches with \<open>buyFund("F001", 0)\<close>:
  the position has 0 shares, and selling exactly those 0 shares is refused by the guard
  \<open>shares <= 0\<close>; the position stays.
\<close>

theorem sellFund_full_zero_shares_counterexample:
  "find (\<lambda>p. p_fundCode p = ''F001'') (a_positions heldZero)
      = Some (newPosition F001 0 ''1700000000000'')
   \<and> p_shares (newPosition F001 0 ''1700000000000'') = 0
   \<and> sellFund mockFunds clock noExponent ''F001'' 0 heldZero
      = (heldZero, Inr \<lparr>success = False, message = Some msg_shares_not_positive\<rparr>)"
  by (simp add: heldZero_positions sellFund_def)

subsection \<open>Rendering with two decimals\<close>

lemma digit_isDigit: "isDigit (digit d)"
proof -
  have "d mod 10 < length ''0123456789''" by simp
  then have "''0123456789'' ! (d mod 10) \<in> set ''0123456789''" by (rule nth_mem)
  then show ?thesis by (simp only: isDigit_def digit_def)
qed

lemma below_ten: "(d::nat) < 10 \<Longrightarrow> d \<in> {0, 1, 2, 3, 4, 5, 6, 7, 8, 9}"
  by auto

lemma digitValue_digit: "digitValue (digit d) = d mod 10"
proof -
  have "d mod 10 < 10" by simp
  then have "d mod 10 \<in> {0, 1, 2, 3, 4, 5, 6, 7, 8, 9}" by (rule below_ten)
  then show ?thesis
    by (auto simp add: digit_def digitValue_def)
qed

lemma digits_all: "list_all isDigit (digits n)"
proof (induction n rule: digits.induct)
  case (1 n)
  then show ?case
    by (subst digits.simps) (simp add: digit_isDigit)
qed

lemma digits_nonempty: "digits n \<noteq> []"
  by (subst digits.simps) simp

lemma digitsValue_snoc: "digitsValue (ds @ [c]) = 10 * digitsValue ds + digitValue c"
  by (simp add: digitsValue_def)

lemma digitsValue_digits: "digitsValue (digits n) = n"
proof (induction n rule: digits.induct)
  case (1 n)
  show ?case
  proof (cases "n < 10")
    case True
    then show ?thesis
      by (subst digits.simps) (simp add: digitsValue_def digitValue_digit)
  next
    case False
    with 1 show ?thesis
      by (subst digits.simps) (simp add: digitsValue_snoc digitValue_digit)
  qed
qed

lemma digitsValue_zeros: "digitsValue (replicate j (CHR ''0'') @ ds) = digitsValue ds"
proof -
  have "foldl (\<lambda>n c. 10 * n + digitValue c) 0 (replicate j (CHR ''0'')) = 0"
    by (induction j) (simp_all add: digitValue_def)
  then show ?thesis by (simp add: digitsValue_def)
qed

lemma digits_0: "digits 0 = ''0''"
  by (simp add: digits.simps digit_def)

lemma toFixed_2_form:
  assumes small: "\<bar>x\<bar> < 10 ^ 21"
  shows "\<exists>m. list_all isDigit m \<and> 3 \<le> length m
    \<and> digitsValue m = nat \<lfloor>\<bar>x\<bar> * 100 + 1 / 2\<rfloor>
    \<and> toFixed toString 2 x
        = (if x < 0 then ''-'' else '''') @ take (length m - 2) m @ ''.'' @ drop (length m - 2) m"
proof -
  define n where "n = nat \<lfloor>\<bar>x\<bar> * 10 ^ 2 + 1 / 2\<rfloor>"
  define d where "d = digits n"
  define m where "m = (if length d \<le> 2 then replicate (2 + 1 - length d) (CHR ''0'') @ d else d)"
  have d_alt: "(if n = 0 then ''0'' else digits n) = d"
    by (simp add: d_def digits_0)
  have "list_all isDigit d"
    by (simp add: d_def digits_all)
  then have digits_m: "list_all isDigit m"
    by (simp add: m_def isDigit_def list_all_iff)
  have len: "length m = (if length d \<le> 2 then 2 + 1 else length d)"
    by (auto simp add: m_def)
  then have long: "3 \<le> length m"
    by (simp split: if_splits)
  have val: "digitsValue m = nat \<lfloor>\<bar>x\<bar> * 100 + 1 / 2\<rfloor>"
    by (simp add: m_def d_def n_def digitsValue_zeros digitsValue_digits)
  have magnitude: "(if x < 0 then - x else x) = \<bar>x\<bar>"
    by simp
  from small have below: "(10 ^ 21 \<le> \<bar>x\<bar>) = False"
    by simp
  have "toFixed toString 2 x
      = (if x < 0 then ''-'' else '''') @ take (length m - 2) m @ ''.'' @ drop (length m - 2) m"
    unfolding toFixed_def Let_def magnitude n_def [symmetric] d_alt below
      m_def [symmetric] len [symmetric]
    by simp
  with digits_m long val show ?thesis
    by blast
qed

lemma isDigit_not_minus: "isDigit c \<Longrightarrow> c \<noteq> CHR ''-''"
  by (auto simp add: isDigit_def)

lemma twoDecimals_body:
  assumes "list_all isDigit pre" and "pre \<noteq> []" and "list_all isDigit post"
    and "length post = 2"
  shows "(let body = pre @ ''.'' @ post; k = length body
     in 4 \<le> k \<and> list_all isDigit (take (k - 3) body) \<and> body ! (k - 3) = CHR ''.''
        \<and> list_all isDigit (drop (k - 2) body))"
proof -
  from assms(2) have "1 \<le> length pre"
    by (cases pre) simp_all
  with assms show ?thesis
    by (simp add: Let_def nth_append)
qed

lemma twoDecimals_unsigned:
  assumes "list_all isDigit pre" and "pre \<noteq> []" and "list_all isDigit post"
    and "length post = 2"
  shows "twoDecimals (pre @ ''.'' @ post)"
proof -
  from assms(2) obtain c cs where pre: "pre = c # cs"
    by (cases pre) simp_all
  with assms(1) have "c \<noteq> CHR ''-''"
    by (simp add: isDigit_not_minus)
  with pre have "(case pre @ ''.'' @ post of [] \<Rightarrow> pre @ ''.'' @ post
      | c # cs \<Rightarrow> if c = CHR ''-'' then cs else pre @ ''.'' @ post) = pre @ ''.'' @ post"
    by simp
  with twoDecimals_body [OF assms] show ?thesis
    unfolding twoDecimals_def by simp
qed

lemma twoDecimals_signed:
  assumes "list_all isDigit pre" and "pre \<noteq> []" and "list_all isDigit post"
    and "length post = 2"
  shows "twoDecimals (''-'' @ pre @ ''.'' @ post)"
  using twoDecimals_body [OF assms] unfolding twoDecimals_def by simp

lemma filter_isDigit_pointed:
  assumes "list_all isDigit pre" and "list_all isDigit post"
  shows "filter isDigit (pre @ ''.'' @ post) = pre @ post"
proof -
  have "\<not> isDigit (CHR ''.'')"
    by (simp add: isDigit_def)
  with assms show ?thesis
    by (simp add: list_all_iff)
qed

lemma nearest_hundredth:
  fixes x :: real
  assumes "0 \<le> x"
  shows "\<bar>real (nat \<lfloor>x * 100 + 1 / 2\<rfloor>) / 100 - x\<bar> \<le> 1 / 200"
proof -
  define n where "n = \<lfloor>x * 100 + 1 / 2\<rfloor>"
  have lower: "of_int n \<le> x * 100 + 1 / 2" and upper: "x * 100 + 1 / 2 < of_int n + 1"
    unfolding n_def by linarith+
  from assms have "0 \<le> n"
    unfolding n_def by simp
  then have "real (nat n) = of_int n"
    by simp
  moreover from lower upper have "\<bar>of_int n / 100 - x\<bar> \<le> 1 / 200"
    by linarith
  ultimately have "\<bar>real (nat n) / 100 - x\<bar> \<le> 1 / 200"
    by (simp only:)
  then show ?thesis
    unfolding n_def .
qed

text \<open>
  Below \<open>10^21\<close> in magnitude, \<open>toFixed(2)\<close> prints two decimals, and what it prints
  is the hundredth nearest to the number.
\<close>

lemma toFixed_2_twoDecimals:
  assumes "\<bar>x\<bar> < 10 ^ 21"
  shows "twoDecimals (toFixed toString 2 x)"
proof -
  from toFixed_2_form [OF assms, of toString] obtain m where
    m: "list_all isDigit m" "3 \<le> length m"
    and form: "toFixed toString 2 x
      = (if x < 0 then ''-'' else '''') @ take (length m - 2) m @ ''.'' @ drop (length m - 2) m"
    by blast
  let ?pre = "take (length m - 2) m" and ?post = "drop (length m - 2) m"
  from m have parts: "list_all isDigit ?pre" "?pre \<noteq> []" "list_all isDigit ?post"
    "length ?post = 2"
    by (auto simp add: list_all_iff dest: in_set_takeD in_set_dropD)
  show ?thesis
  proof (cases "x < 0")
    case True
    with form twoDecimals_signed [OF parts] show ?thesis by simp
  next
    case False
    with form twoDecimals_unsigned [OF parts] show ?thesis by simp
  qed
qed

lemma toFixed_2_nearest:
  assumes "\<bar>x\<bar> < 10 ^ 21"
  shows "\<bar>real_of_int (hundredths (toFixed toString 2 x)) / 100 - x\<bar> \<le> 1 / 200"
proof -
  from toFixed_2_form [OF assms, of toString] obtain m where
    m: "list_all isDigit m" "3 \<le> length m"
    and val: "digitsValue m = nat \<lfloor>\<bar>x\<bar> * 100 + 1 / 2\<rfloor>"
    and form: "toFixed toString 2 x
      = (if x < 0 then ''-'' else '''') @ take (length m - 2) m @ ''.'' @ drop (length m - 2) m"
    by blast
  let ?pre = "take (length m - 2) m" and ?post = "drop (length m - 2) m"
  from m have parts: "list_all isDigit ?pre" "list_all isDigit ?post" "?pre \<noteq> []"
    by (auto simp add: list_all_iff dest: in_set_takeD in_set_dropD)
  then have kept: "filter isDigit (?pre @ ''.'' @ ?post) = m"
    using filter_isDigit_pointed [of ?pre ?post] by simp
  from parts(3) obtain c cs where pre: "?pre = c # cs"
    by (cases ?pre) simp_all
  with parts(1) have first: "c \<noteq> CHR ''-''"
    by (simp add: isDigit_not_minus)
  define n where "n = nat \<lfloor>\<bar>x\<bar> * 100 + 1 / 2\<rfloor>"
  have near: "\<bar>real n / 100 - \<bar>x\<bar>\<bar> \<le> 1 / 200"
    unfolding n_def by (rule nearest_hundredth) simp
  show ?thesis
  proof (cases "x < 0")
    case True
    with form kept val have "hundredths (toFixed toString 2 x) = - int n"
      by (simp add: hundredths_def n_def)
    then have "real_of_int (hundredths (toFixed toString 2 x)) / 100 = - (real n / 100)"
      by simp
    moreover from near True have "\<bar>- (real n / 100) - x\<bar> \<le> 1 / 200"
      by linarith
    ultimately show ?thesis
      by (simp only:)
  next
    case False
    with form pre first have "hundredths (toFixed toString 2 x)
        = int (digitsValue (filter isDigit (?pre @ ''.'' @ ?post)))"
      by (simp add: hundredths_def)
    with kept val have "hundredths (toFixed toString 2 x) = int n"
      by (simp add: n_def)
    then have "real_of_int (hundredths (toFixed toString 2 x)) / 100 = real n / 100"
      by simp
    moreover from near False have "\<bar>real n / 100 - x\<bar> \<le> 1 / 200"
      by linarith
    ultimately show ?thesis
      by (simp only:)
  qed
qed

subsection \<open>Selling more than is held\<close>

text \<open>
  C6 (amended). For every account holding a position in a fund and every
  shares > 0 above the shares of the position: sellFund returns success = false with the
  message of the third guard, which embeds \<open>position.shares.toFixed(2)\<close>, and the
  account after equals the account before. Where the shares of the position are below
  \<open>10^21\<close> in magnitude, what is embedded has exactly two decimals and is the
  hundredth nearest to the shares of the position.
\<close>

theorem sellFund_insufficient_shares:
  assumes held: "find (\<lambda>p. p_fundCode p = fundCode) (a_positions account) = Some position"
    and over: "shares > p_shares position"
    and pos: "0 < shares"
  shows "sellFund funds now toString fundCode shares account
      = (account,
         Inr \<lparr>success = False,
              message = Some (msg_exceeds_prefix @ toFixed toString 2 (p_shares position)
                @ msg_exceeds_suffix)\<rparr>)
    \<and> (\<bar>p_shares position\<bar> < 10 ^ 21 \<longrightarrow>
          twoDecimals (toFixed toString 2 (p_shares position))
          \<and> \<bar>real_of_int (hundredths (toFixed toString 2 (p_shares position))) / 100
                - p_shares position\<bar> \<le> 1 / 200)"
proof -
  from held over pos have "sellFund funds now toString fundCode shares account
      = (account,
         Inr \<lparr>success = False,
              message = Some (msg_exceeds_prefix @ toFixed toString 2 (p_shares position)
                @ msg_exceeds_suffix)\<rparr>)"
    by (simp add: sellFund_def)
  moreover have "\<bar>p_shares position\<bar> < 10 ^ 21 \<longrightarrow>
      twoDecimals (toFixed toString 2 (p_shares position))
      \<and> \<bar>real_of_int (hundredths (toFixed toString 2 (p_shares position))) / 100
            - p_shares position\<bar> \<le> 1 / 200"
    using toFixed_2_twoDecimals [of "p_shares position" toString]
      toFixed_2_nearest [of "p_shares position" toString]
    by blast
  ultimately show ?thesis
    by (rule conjI)
qed

lemma toFixed_2_of_100: "toFixed noExponent 2 100 = ''100.00''"
  by (simp add: toFixed_def Let_def digits.simps digit_def)

theorem sellFund_insufficient_shares_witness:
  "find (\<lambda>p. p_fundCode p = ''F001'') (a_positions held100)
      = Some (newPosition F001 100 ''1700000000000'')
   \<and> 130 > p_shares (newPosition F001 100 ''1700000000000'')
   \<and> (0::real) < 130
   \<and> sellFund mockFunds clock noExponent ''F001'' 130 held100
      = (held100,
         Inr \<lparr>success = False,
              message = Some (msg_exceeds_prefix @ ''100.00'' @ msg_exceeds_suffix)\<rparr>)
   \<and> \<bar>p_shares (newPosition F001 100 ''1700000000000'')\<bar> < 10 ^ 21
   \<and> twoDecimals ''100.00''
   \<and> \<bar>real_of_int (hundredths ''100.00'') / 100 - 100\<bar> \<le> 1 / 200"
proof -
  have over: "130 > p_shares (newPosition F001 100 ''1700000000000'')"
    by simp
  have pos: "(0::real) < 130"
    by simp
  have small: "\<bar>p_shares (newPosition F001 100 ''1700000000000'')\<bar> < 10 ^ 21"
    by simp
  from sellFund_insufficient_shares [OF held100_find over pos, of mockFunds clock noExponent]
    held100_find small
  show ?thesis by (simp add: toFixed_2_of_100)
qed

lemma heldShort_positions: "a_positions heldShort = [newPosition F001 (- 5) ''1700000000000'']"
  by (simp add: heldShort_def buyFund_def find_F001 initialState_def setAccount_def
      Let_def clock_def digits.simps digit_def)

text \<open>
  C6 as stated fails on an account the store reaches with \<open>buyFund("F001", -5)\<close>,
  which passes the cash guard: the position has -5 shares, and a sell of -1 shares, above
  the shares of the position, meets the guard \<open>shares <= 0\<close> first; its message
  reports no amount.
\<close>

theorem sellFund_insufficient_shares_counterexample:
  "find (\<lambda>p. p_fundCode p = ''F001'') (a_positions heldShort)
      = Some (newPosition F001 (- 5) ''1700000000000'')
   \<and> - 1 > p_shares (newPosition F001 (- 5) ''1700000000000'')
   \<and> sellFund mockFunds clock noExponent ''F001'' (- 1) heldShort
      = (heldShort, Inr \<lparr>success = False, message = Some msg_shares_not_positive\<rparr>)
   \<and> msg_shares_not_positive
      \<noteq> msg_exceeds_prefix
        @ toFixed noExponent 2 (p_shares (newPosition F001 (- 5) ''1700000000000''))
        @ msg_exceeds_suffix"
  by (simp add: heldShort_positions sellFund_def msg_shares_not_positive_def
      msg_exceeds_prefix_def)

subsection \<open>The total assets\<close>

lemma reprice_length [simp]: "length (reprice random k ps) = length ps"
  by (induction ps arbitrary: k) (simp_all add: Let_def)

text \<open>
  C5. After each action of the ledger that sets the account (a buy that is not refused,
  a sell that succeeds, every updatePrices, every resetAccount), totalAssets equals
  cashBalance plus the sum of marketValue over the positions. A buy or sell that does
  not set the account leaves it as it was.
\<close>

theorem totalAssets_after_mutation:
  "(snd (buyFund funds now fundCode shares account) = Bought
      \<longrightarrow> totalAssetsConsistent (fst (buyFund funds now fundCode shares account)))
   \<and> (snd (buyFund funds now fundCode shares account) \<noteq> Bought
      \<longrightarrow> fst (buyFund funds now fundCode shares account) = account)
   \<and> ((\<exists>r. snd (sellFund funds now' toString fundCode' shares' account) = Inr r \<and> success r)
      \<longrightarrow> totalAssetsConsistent (fst (sellFund funds now' toString fundCode' shares' account)))
   \<and> (\<not> (\<exists>r. snd (sellFund funds now' toString fundCode' shares' account) = Inr r \<and> success r)
      \<longrightarrow> fst (sellFund funds now' toString fundCode' shares' account) = account)
   \<and> totalAssetsConsistent (updatePrices random account)
   \<and> totalAssetsConsistent (resetAccount account)"
proof -
  have set_consistent: "totalAssetsConsistent (setAccount account cash ps tx)" for cash ps tx
    by (simp add: totalAssetsConsistent_def setAccount_fields totalAssetsOf_sum)
  have bought: "snd (buyFund funds now fundCode shares account) = Bought
      \<longrightarrow> totalAssetsConsistent (fst (buyFund funds now fundCode shares account))"
    by (simp add: buyFund_def Let_def set_consistent split: option.splits)
  have refused: "snd (buyFund funds now fundCode shares account) \<noteq> Bought
      \<longrightarrow> fst (buyFund funds now fundCode shares account) = account"
    by (simp add: buyFund_def Let_def split: option.splits)
  have sold: "(\<exists>r. snd (sellFund funds now' toString fundCode' shares' account) = Inr r \<and> success r)
      \<longrightarrow> totalAssetsConsistent (fst (sellFund funds now' toString fundCode' shares' account))"
    by (simp add: sellFund_def Let_def set_consistent split: option.splits)
  have kept: "\<not> (\<exists>r. snd (sellFund funds now' toString fundCode' shares' account) = Inr r \<and> success r)
      \<longrightarrow> fst (sellFund funds now' toString fundCode' shares' account) = account"
    by (simp add: sellFund_def Let_def split: option.splits)
  have ticked: "totalAssetsConsistent (updatePrices random account)"
    by (simp add: totalAssetsConsistent_def updatePrices_def Let_def totalAssetsOf_sum)
  have reset: "totalAssetsConsistent (resetAccount account)"
    by (simp add: totalAssetsConsistent_def resetAccount_def initialState_def)
  from bought refused sold kept ticked reset show ?thesis
    by (intro conjI)
qed

theorem totalAssets_after_mutation_witness:
  "snd (buyFund mockFunds clock ''F001'' 50 held100) = Bought
   \<and> totalAssetsConsistent (fst (buyFund mockFunds clock ''F001'' 50 held100))
   \<and> snd (sellFund mockFunds clock noExponent ''F001'' 30 held100)
      = Inr \<lparr>success = True, message = Some msg_partial_sell\<rparr>
   \<and> totalAssetsConsistent (fst (sellFund mockFunds clock noExponent ''F001'' 30 held100))
   \<and> totalAssetsConsistent (updatePrices (\<lambda>k. 1 / 2) held100)
   \<and> totalAssetsConsistent (resetAccount held100)"
proof -
  have bought: "snd (buyFund mockFunds clock ''F001'' 50 held100) = Bought"
    by (simp add: buyFund_def find_F001 held100_cash Let_def)
  have sold: "snd (sellFund mockFunds clock noExponent ''F001'' 30 held100)
      = Inr \<lparr>success = True, message = Some msg_partial_sell\<rparr>"
    by (simp add: sellFund_def held100_find find_F001 Let_def)
  from totalAssets_after_mutation [of mockFunds clock "''F001''" 50 held100 clock noExponent
      "''F001''" 30 "\<lambda>k. 1 / 2"] bought sold
  show ?thesis by simp
qed

subsection \<open>What updatePrices leaves\<close>

lemma nth_reprice:
  "i < length ps \<Longrightarrow>
    p_shares (reprice random k ps ! i) = p_shares (ps ! i)
    \<and> p_totalCost (reprice random k ps ! i) = p_totalCost (ps ! i)
    \<and> p_avgCost (reprice random k ps ! i) = p_avgCost (ps ! i)"
  by (induction ps arbitrary: k i) (auto simp add: Let_def nth_Cons split: nat.splits)

lemma reprice_keeps:
  "map p_id (reprice random k ps) = map p_id ps"
  "map p_fundCode (reprice random k ps) = map p_fundCode ps"
  "map p_fundName (reprice random k ps) = map p_fundName ps"
  "map p_fundType (reprice random k ps) = map p_fundType ps"
  "map p_shares (reprice random k ps) = map p_shares ps"
  "map p_totalCost (reprice random k ps) = map p_totalCost ps"
  "map p_avgCost (reprice random k ps) = map p_avgCost ps"
  by (induction ps arbitrary: k) (simp_all add: Let_def)

text \<open>
  C9. For every account, updatePrices leaves cashBalance and the transactions as they
  were; the positions stay as many, in the same order, each with its id, fundCode,
  fundName, fundType, shares, totalCost and avgCost. (What may change: currentPrice,
  marketValue, profitLoss and profitLossPercent of the positions, and totalAssets,
  profitLoss and profitLossPercent of the account.)
\<close>

theorem updatePrices_frame:
  "a_cashBalance (updatePrices random account) = a_cashBalance account
   \<and> a_transactions (updatePrices random account) = a_transactions account
   \<and> length (a_positions (updatePrices random account)) = length (a_positions account)
   \<and> map p_id (a_positions (updatePrices random account)) = map p_id (a_positions account)
   \<and> map p_fundCode (a_positions (updatePrices random account))
      = map p_fundCode (a_positions account)
   \<and> map p_fundName (a_positions (updatePrices random account))
      = map p_fundName (a_positions account)
   \<and> map p_fundType (a_positions (updatePrices random account))
      = map p_fundType (a_positions account)
   \<and> map p_shares (a_positions (updatePrices random account)) = map p_shares (a_positions account)
   \<and> map p_totalCost (a_positions (updatePrices random account))
      = map p_totalCost (a_positions account)
   \<and> map p_avgCost (a_positions (updatePrices random account))
      = map p_avgCost (a_positions account)"
  by (simp add: updatePrices_def Let_def reprice_keeps)

theorem updatePrices_frame_witness:
  "a_cashBalance (updatePrices (\<lambda>k. 1) held100) = 99754.4
   \<and> a_transactions (updatePrices (\<lambda>k. 1) held100) = a_transactions held100
   \<and> map p_shares (a_positions (updatePrices (\<lambda>k. 1) held100)) = [100]
   \<and> map p_currentPrice (a_positions (updatePrices (\<lambda>k. 1) held100)) = [2.52968]"
proof -
  have "map p_currentPrice (a_positions (updatePrices (\<lambda>k. 1) held100)) = [2.52968]"
    by (simp add: updatePrices_def held100_positions newPosition_def Let_def)
  with updatePrices_frame [of "\<lambda>k. 1" held100] show ?thesis
    by (simp add: held100_cash held100_positions)
qed

subsection \<open>Positions without shares\<close>

lemma positionAfterBuy_shares [simp]:
  "p_shares (positionAfterBuy fund shares existingPosition p) = p_shares existingPosition + shares"
  by (simp add: positionAfterBuy_def Let_def)

lemma positionAfterSell_shares [simp]:
  "p_shares (positionAfterSell exact fund shares position p) = p_shares position - shares"
  by (simp add: positionAfterSell_def exact_def Let_def)

lemma buyFund_sharesPositive:
  assumes "0 < shares" and "sharesPositive account"
  shows "sharesPositive (fst (buyFund funds now fundCode shares account))"
proof (cases "find (\<lambda>p. p_fundCode p = fundCode) (a_positions account)")
  case None
  with assms show ?thesis
    by (simp add: buyFund_def Let_def sharesPositive_def setAccount_fields split: option.splits)
next
  case (Some existingPosition)
  then have "existingPosition \<in> set (a_positions account)"
    using find_Some_holds [of "\<lambda>p. p_fundCode p = fundCode" "a_positions account"] by simp
  with assms have "0 < p_shares existingPosition + shares"
    by (simp add: sharesPositive_def list_all_iff add_pos_pos)
  with assms(2) Some show ?thesis
    by (auto simp add: buyFund_def Let_def sharesPositive_def setAccount_fields list_all_iff
        split: option.splits)
qed

lemma sellFund_sharesPositive:
  assumes "sharesPositive account"
  shows "sharesPositive (fst (sellFund funds now toString fundCode shares account))"
  using assms
  by (auto simp add: sellFund_def Let_def sharesPositive_def setAccount_fields list_all_iff
      split: option.splits)

lemma updatePrices_sharesPositive:
  assumes "sharesPositive account"
  shows "sharesPositive (updatePrices random account)"
proof -
  have "sharesPositive a = list_all (\<lambda>s. 0 < s) (map p_shares (a_positions a))" for a
    by (simp add: sharesPositive_def list_all_iff)
  with assms show ?thesis
    by (simp add: updatePrices_def Let_def reprice_keeps)
qed

lemma resetAccount_sharesPositive: "sharesPositive (resetAccount account)"
  by (simp add: resetAccount_def initialState_def sharesPositive_def)

lemma run_sharesPositive:
  assumes "buysPositive actions" and "sharesPositive account"
  shows "sharesPositive (run funds toString actions account)"
  using assms unfolding run_def
proof (induction actions arbitrary: account)
  case Nil
  then show ?case by simp
next
  case (Cons action actions)
  have "sharesPositive (perform funds toString account action) \<and> buysPositive actions"
  proof (cases action)
    case (BuyFund now fundCode shares)
    with Cons.prems show ?thesis by (simp add: buyFund_sharesPositive)
  next
    case (SellFund now fundCode shares)
    with Cons.prems show ?thesis by (simp add: sellFund_sharesPositive)
  next
    case (UpdatePrices random)
    with Cons.prems show ?thesis by (simp add: updatePrices_sharesPositive)
  next
    case ResetAccount
    with Cons.prems show ?thesis by (simp add: resetAccount_sharesPositive)
  qed
  with Cons.IH show ?case by simp
qed

lemma sharesPositive_noZeroPosition: "sharesPositive account \<Longrightarrow> noZeroPosition account"
  by (auto simp add: sharesPositive_def noZeroPosition_def list_all_iff)

text \<open>
  C8 (amended). Where every buyFund of a sequence of actions is called with
  shares > 0 (as the callers of the store check before they call it): if every position
  of the account before has shares > 0, then after the sequence every position has
  shares > 0, and so none has shares = 0; in particular no such sequence from the
  initial account produces a position with zero shares.
\<close>

theorem no_zero_share_position:
  assumes "buysPositive actions"
  shows "(sharesPositive account \<longrightarrow>
        sharesPositive (run funds toString actions account)
        \<and> noZeroPosition (run funds toString actions account))
    \<and> noZeroPosition (run funds toString actions initialState)"
proof -
  have "sharesPositive initialState"
    by (simp add: initialState_def sharesPositive_def)
  with assms show ?thesis
    by (simp add: run_sharesPositive sharesPositive_noZeroPosition)
qed

theorem no_zero_share_position_witness:
  "buysPositive [BuyFund clock ''F001'' 100, SellFund clock ''F001'' 30, UpdatePrices (\<lambda>k. 1),
      SellFund clock ''F001'' 70, BuyFund clock ''F002'' 10, ResetAccount]
   \<and> sharesPositive held100
   \<and> sharesPositive (run mockFunds noExponent
        [BuyFund clock ''F001'' 100, SellFund clock ''F001'' 30, UpdatePrices (\<lambda>k. 1),
         SellFund clock ''F001'' 70, BuyFund clock ''F002'' 10, ResetAccount] held100)
   \<and> noZeroPosition (run mockFunds noExponent
        [BuyFund clock ''F001'' 100, SellFund clock ''F001'' 30, UpdatePrices (\<lambda>k. 1),
         SellFund clock ''F001'' 70, BuyFund clock ''F002'' 10, ResetAccount] initialState)"
proof -
  have buys: "buysPositive [BuyFund clock ''F001'' 100, SellFund clock ''F001'' 30,
      UpdatePrices (\<lambda>k. 1), SellFund clock ''F001'' 70, BuyFund clock ''F002'' 10, ResetAccount]"
    by simp
  have held: "sharesPositive held100"
    by (simp add: sharesPositive_def held100_positions)
  from no_zero_share_position [OF buys, of held100 mockFunds noExponent] buys held
  show ?thesis by simp
qed

text \<open>
  C8 as stated fails at the first action: \<open>buyFund("F001", 0)\<close> on the initial
  account costs nothing, passes the cash guard and appends a position with 0 shares.
\<close>

theorem zero_share_position_counterexample:
  "a_positions (run mockFunds noExponent [BuyFund clock ''F001'' 0] initialState)
      = [newPosition F001 0 ''1700000000000'']
   \<and> p_shares (newPosition F001 0 ''1700000000000'') = 0
   \<and> \<not> noZeroPosition (run mockFunds noExponent [BuyFund clock ''F001'' 0] initialState)"
proof -
  have "run mockFunds noExponent [BuyFund clock ''F001'' 0] initialState = heldZero"
    by (simp add: run_def heldZero_def)
  then show ?thesis
    by (simp add: heldZero_positions noZeroPosition_def)
qed

section \<open>Properties of the catalog\<close>

lemma getFundList_failure:
  "getFundList (Inl rejection) = Inr (JsonArray [])"
  "\<not> ok response \<Longrightarrow> getFundList (Inr response) = Inr (JsonArray [])"
  "json response = Inl rejection \<Longrightarrow> getFundList (Inr response) = Inr (JsonArray [])"
  by (simp_all add: getFundList_def)

lemma getFundList_never_rejects: "\<exists>funds. getFundList fetched = Inr funds"
  by (cases fetched) (auto simp add: getFundList_def split: sum.splits)

lemma loadPopularFunds_failure:
  assumes "getFundList fetched = Inr (JsonArray [])"
  shows "fs_popularFunds (loadPopularFunds fetched store) = []"
    and "fs_allFunds (loadPopularFunds fetched store)
      = map snd (foldl (\<lambda>m fund. mapSet (fd_code fund) fund m) [] (fs_customFunds store))"
  using assms by (simp_all add: loadPopularFunds_def convertFunds_def getAllFunds_def Let_def)

text \<open>
  The catch of \<open>loadPopularFunds\<close> runs for one kind of reply only, a body that is
  JSON but no array: then the popular funds stay.
\<close>

lemma loadPopularFunds_not_array_keeps:
  assumes "ok response" and "json response = Inr JsonOther"
  shows "loadPopularFunds (Inr response) store = store\<lparr>fs_isLoading := False\<rparr>"
  using assms by (simp add: loadPopularFunds_def getFundList_def convertFunds_def Let_def)

text \<open>
  C7. The claim is that a failing provider leaves the popular funds as they were. In
  the code the failure does not reach \<open>loadPopularFunds\<close>: \<open>getFundList\<close> answers it
  with the empty list, which \<open>loadPopularFunds\<close> stores. From the initial store (the
  eight funds of mockFunds), with the network down, the popular funds and the merged
  view are empty afterwards.
\<close>

theorem loadPopularFunds_failure_empties:
  "fs_popularFunds initialFundStore = mockFunds_catalog
   \<and> length mockFunds_catalog = 8
   \<and> getFundList (Inl NetworkFailure) = Inr (JsonArray [])
   \<and> loadPopularFunds (Inl NetworkFailure) initialFundStore
      = \<lparr>fs_popularFunds = [], fs_customFunds = [], fs_allFunds = [], fs_isLoading = False\<rparr>"
  by (simp add: loadPopularFunds_def getFundList_def convertFunds_def getAllFunds_def
      initialFundStore_def mockFunds_catalog_def Let_def)

end
